theory Spec2Isabelle
  imports Main
begin

section \<open>Triage-ticket creation: a model of \<^verbatim>\<open>tools/create_triage_tickets.py\<close>\<close>

text \<open>
  The script is a sequence of calls into libraries (\<^verbatim>\<open>requests\<close>, \<^verbatim>\<open>jira\<close>, \<^verbatim>\<open>netrc\<close>,
  \<^verbatim>\<open>logging\<close>) and into two sibling modules (\<^verbatim>\<open>add_triage_signature\<close>, imported as
  \<^verbatim>\<open>ats\<close>, and \<^verbatim>\<open>close_by_signature\<close>). The model keeps the script's own control flow and
  makes everything around it explicit:
  \<^item> every call that leaves the script is recorded as an \<open>event\<close>, in program order;
  \<^item> what such a call answers (a value or a raised exception) is a field of the record
    \<open>world\<close> (or of \<open>jira_client\<close> for the methods of the tracker client);
  \<^item> an exception or \<^verbatim>\<open>sys.exit\<close> is a value \<open>Inl\<close> of the result, and stops what follows;
  \<^item> the one unbounded loop (the pagination) is a partial function: not returning is
    \<open>None\<close>.
\<close>

subsection \<open>Python values and exceptions\<close>

datatype py_error =
    ValueError
  | KeyError
  | TypeError
  | IndexError
  | UnboundLocalError
  | HTTPError
  | ConnectionError
  | LibraryError string

datatype abort = Raised py_error | SystemExit int

text \<open>
  A JSON object whose values are strings, in the order of the document. The metadata
  fields the script reads (\<^verbatim>\<open>status\<close>, \<^verbatim>\<open>openshift_version\<close>, \<^verbatim>\<open>id\<close>, \<^verbatim>\<open>user_name\<close>,
  \<^verbatim>\<open>email_domain\<close>) and the \<^verbatim>\<open>name\<close> of a failure are taken to be strings.
\<close>

type_synonym py_dict = "(string \<times> string) list"

record 'a response =
  status_code :: nat
  json :: 'a

record issue =
  key :: string
  fields_summary :: string
  fields_status :: string

text \<open>The keyword arguments of \<^verbatim>\<open>jclient.create_issue\<close> (lines 87-97); a list of
  \<^verbatim>\<open>{'name': n}\<close> objects is the list of the names.\<close>

record issue_fields =
  project :: string
  summary :: string
  versions :: "string list"
  components :: "string list"
  priority :: string
  issuetype :: string
  labels :: "string list"
  description :: string

datatype level = DEBUG | INFO | ERROR | EXCEPTION

datatype event =
    Log level string "string list"
  | NetrcRead string string
  | JiraLogin string "string \<times> string"
  | HttpGet string
  | SearchIssues string nat nat
  | BuildDescription string py_dict
  | CreateIssue issue_fields
  | AddWatcher string string
  | AddSignatures string string
  | RunUsingJson string string "issue list"

text \<open>The methods of \<^verbatim>\<open>jira.JIRA\<close> the script calls: \<^verbatim>\<open>search_issues(query, maxResults,
  startAt)\<close>, \<^verbatim>\<open>create_issue(**fields)\<close>, \<^verbatim>\<open>add_watcher(key, watcher)\<close>.\<close>

record jira_client =
  search_issues :: "string \<Rightarrow> nat \<Rightarrow> nat \<Rightarrow> py_error + issue list"
  create_issue :: "issue_fields \<Rightarrow> py_error + issue"
  add_watcher :: "string \<Rightarrow> string \<Rightarrow> py_error + unit"

text \<open>
  Everything else outside the script. \<open>netrc_authenticators file host\<close> is
  \<^verbatim>\<open>netrc.netrc(file).authenticators(host)\<close>; \<open>jira_JIRA\<close> is the constructor of the client;
  \<open>requests_get_files\<close> and \<open>requests_get_metadata\<close> are \<^verbatim>\<open>requests.get\<close> at the listing
  URL and at a metadata URL, with the body already seen as the JSON the script expects
  (a list of failure descriptors, resp. an object of objects); \<open>days_ago\<close>,
  \<open>build_description\<close> and \<open>add_signatures\<close> are the functions of \<^verbatim>\<open>ats\<close>, and
  \<open>run_using_json\<close> is \<^verbatim>\<open>close_by_signature.run_using_json\<close> (path, username, issues).
  These two modules are not part of the file modelled here, so they are parameters.
\<close>

record world =
  netrc_authenticators :: "string \<Rightarrow> string \<Rightarrow> py_error + (string \<times> string \<times> string) option"
  jira_JIRA :: "string \<Rightarrow> string \<times> string \<Rightarrow> py_error + jira_client"
  requests_get_files :: "string \<Rightarrow> py_error + (py_dict list) response"
  requests_get_metadata :: "string \<Rightarrow> py_error + ((string \<times> py_dict) list) response"
  days_ago :: "string \<Rightarrow> py_error + int"
  build_description :: "string \<Rightarrow> py_dict \<Rightarrow> py_error + string"
  add_signatures :: "string \<Rightarrow> string \<Rightarrow> py_error + unit"
  run_using_json :: "string \<Rightarrow> string \<Rightarrow> issue list \<Rightarrow> py_error + unit"

text \<open>The command line, as \<^verbatim>\<open>argparse\<close> delivers it (lines 155-172).\<close>

record args =
  netrc :: string
  user_password :: "string option"
  all :: bool
  verbose :: bool
  filters_json :: "string option"

subsection \<open>Effects: a trace of events and a result\<close>

type_synonym 'a io = "event list \<times> (abort + 'a)"

definition io_return :: "'a \<Rightarrow> 'a io" where
  "io_return x = ([], Inr x)"

definition io_raise :: "py_error \<Rightarrow> 'a io" where
  "io_raise e = ([], Inl (Raised e))"

definition io_exit :: "int \<Rightarrow> 'a io" where
  "io_exit n = ([], Inl (SystemExit n))"

definition io_emit :: "event \<Rightarrow> unit io" where
  "io_emit ev = ([ev], Inr ())"

text \<open>A call that leaves the script: the event is recorded, and the call returns its
  value or raises its exception.\<close>

definition io_call :: "event \<Rightarrow> py_error + 'a \<Rightarrow> 'a io" where
  "io_call ev res = ([ev], (case res of Inl e \<Rightarrow> Inl (Raised e) | Inr x \<Rightarrow> Inr x))"

text \<open>Sequencing: what follows an abort does not run.\<close>

definition io_bind :: "'a io \<Rightarrow> ('a \<Rightarrow> 'b io) \<Rightarrow> 'b io" where
  "io_bind m f =
     (case m of
        (t, Inl a) \<Rightarrow> (t, Inl a)
      | (t, Inr x) \<Rightarrow> (case f x of (t', r) \<Rightarrow> (t @ t', r)))"

text \<open>A value or exception computed without leaving a trace.\<close>

definition io_of :: "py_error + 'a \<Rightarrow> 'a io" where
  "io_of res = ([], (case res of Inl e \<Rightarrow> Inl (Raised e) | Inr x \<Rightarrow> Inr x))"

text \<open>\<^verbatim>\<open>try: m except: h\<close> with a bare \<^verbatim>\<open>except\<close>, which catches every exception.\<close>

definition io_try :: "'a io \<Rightarrow> 'a io \<Rightarrow> 'a io" where
  "io_try m h =
     (case m of
        (t, Inl a) \<Rightarrow> (case h of (t', r) \<Rightarrow> (t @ t', r))
      | (t, Inr x) \<Rightarrow> (t, Inr x))"

text \<open>The same for a computation that may not return (\<open>None\<close>).\<close>

definition prog_bind :: "'a io option \<Rightarrow> ('a \<Rightarrow> 'b io option) \<Rightarrow> 'b io option" where
  "prog_bind m f =
     (case m of
        None \<Rightarrow> None
      | Some (t, Inl a) \<Rightarrow> Some (t, Inl a)
      | Some (t, Inr x) \<Rightarrow>
          (case f x of None \<Rightarrow> None | Some (t', r) \<Rightarrow> Some (t @ t', r)))"

subsection \<open>Python primitives\<close>

text \<open>\<^verbatim>\<open>d[k]\<close> on a dict: \<^verbatim>\<open>KeyError\<close> when the key is absent.\<close>

definition getitem :: "(string \<times> 'v) list \<Rightarrow> string \<Rightarrow> 'v io" where
  "getitem d k = (case map_of d k of None \<Rightarrow> io_raise KeyError | Some v \<Rightarrow> io_return v)"

text \<open>\<^verbatim>\<open>xs[0]\<close> on a list: \<^verbatim>\<open>IndexError\<close> when the list is empty.\<close>

definition index0 :: "'a list \<Rightarrow> 'a io" where
  "index0 xs = (case xs of [] \<Rightarrow> io_raise IndexError | x # _ \<Rightarrow> io_return x)"

text \<open>\<^verbatim>\<open>s.split(c)\<close> for a one-character separator: the pieces between the occurrences of
  \<open>c\<close>, at least one piece.\<close>

fun py_split :: "char \<Rightarrow> string \<Rightarrow> string list" where
  "py_split c [] = [[]]"
| "py_split c (x # xs) =
     (if x = c then [] # py_split c xs
      else (case py_split c xs of [] \<Rightarrow> [[x]] | p # ps \<Rightarrow> (x # p) # ps))"

text \<open>\<^verbatim>\<open>s.split(c, n)\<close>: at most \<open>n\<close> splits, from the left.\<close>

fun py_split_max :: "char \<Rightarrow> nat \<Rightarrow> string \<Rightarrow> string list" where
  "py_split_max c 0 s = [s]"
| "py_split_max c (Suc n) [] = [[]]"
| "py_split_max c (Suc n) (x # xs) =
     (if x = c then [] # py_split_max c n xs
      else (case py_split_max c (Suc n) xs of [] \<Rightarrow> [[x]] | p # ps \<Rightarrow> (x # p) # ps))"

text \<open>Reading a local variable that no assignment has bound.\<close>

definition read_local :: "'a option \<Rightarrow> 'a io" where
  "read_local v = (case v of None \<Rightarrow> io_raise UnboundLocalError | Some x \<Rightarrow> io_return x)"

text \<open>\<^verbatim>\<open>Response.raise_for_status()\<close> of \<^verbatim>\<open>requests\<close>: a 4xx or 5xx status raises.\<close>

definition raise_for_status :: "'a response \<Rightarrow> unit io" where
  "raise_for_status res =
     (if 400 \<le> status_code res \<and> status_code res < 600 then io_raise HTTPError
      else io_return ())"

subsection \<open>Constants (lines 19-26)\<close>

definition DEFAULT_DAYS_TO_HANDLE :: int where
  "DEFAULT_DAYS_TO_HANDLE = 30"

definition DEFAULT_WATCHERS :: "string list" where
  "DEFAULT_WATCHERS = [''ronniela'', ''odepaz'']"

definition LOGS_COLLECTOR :: string where
  "LOGS_COLLECTOR = ''http://assisted-logs-collector.usersys.redhat.com''"

definition JIRA_SERVER :: string where
  "JIRA_SERVER = ''https://issues.redhat.com/''"

text \<open>\<^verbatim>\<open>urlparse(JIRA_SERVER).hostname\<close>.\<close>

definition JIRA_HOSTNAME :: string where
  "JIRA_HOSTNAME = ''issues.redhat.com''"

subsection \<open>The functions of the script\<close>

text \<open>Lines 28-31. Unpacking \<^verbatim>\<open>None\<close> (no entry for the host) is a \<^verbatim>\<open>TypeError\<close>.\<close>

definition get_credentials_from_netrc :: "world \<Rightarrow> string \<Rightarrow> string \<Rightarrow> (string \<times> string) io" where
  "get_credentials_from_netrc w server netrc_file =
     io_bind (io_call (NetrcRead netrc_file server) (netrc_authenticators w netrc_file server))
       (\<lambda>cred. case cred of
                  None \<Rightarrow> io_raise TypeError
                | Some (username, _, password) \<Rightarrow> io_return (username, password))"

text \<open>Lines 34-36.\<close>

definition get_jira_client :: "world \<Rightarrow> string \<Rightarrow> string \<Rightarrow> jira_client io" where
  "get_jira_client w username password =
     io_bind (io_emit (Log INFO ''log-in with username: %s'' [username]))
       (\<lambda>_. io_call (JiraLogin JIRA_SERVER (username, password))
                     (jira_JIRA w JIRA_SERVER (username, password)))"

text \<open>Lines 39-47. The two formatters receive a dict literal built at their only call
  site; the model passes the values of its keys.\<close>

definition format_summary :: "string \<Rightarrow> string" where
  "format_summary failure_id = ''cloud.redhat.com failure: '' @ failure_id"

definition format_labels :: "string \<Rightarrow> string \<Rightarrow> string \<Rightarrow> string list" where
  "format_labels cluster_id username domain =
     [''no-qe'',
      ''AI_CLOUD_TRIAGE'',
      ''AI_CLUSTER_'' @ cluster_id,
      ''AI_USER_'' @ username,
      ''AI_DOMAIN_'' @ domain]"

text \<open>Lines 50-68. The loop state is \<open>idx\<close>, \<open>summaries\<close>, \<open>issues\<close>, and the trace so far.\<close>

definition triage_query :: string where
  "triage_query = ''component = \"Assisted-Installer Triage\"''"

definition block_size :: nat where
  "block_size = 100"

partial_function (option) triage_tickets_loop ::
  "jira_client \<Rightarrow> nat \<Rightarrow> string list \<Rightarrow> issue list \<Rightarrow> event list \<Rightarrow> (issue list \<times> string set) io option"
where
  "triage_tickets_loop jclient idx summaries issues tr =
     (case search_issues jclient triage_query block_size idx of
        Inl e \<Rightarrow> Some (tr @ [SearchIssues triage_query block_size idx], Inl (Raised e))
      | Inr issues_bulk \<Rightarrow>
          if length issues_bulk = 0
          then Some (tr @ [SearchIssues triage_query block_size idx], Inr (issues, set summaries))
          else triage_tickets_loop jclient (idx + block_size)
                 (summaries @ map fields_summary issues_bulk)
                 (issues @ issues_bulk)
                 (tr @ [SearchIssues triage_query block_size idx]))"

declare triage_tickets_loop.simps [code]

definition get_all_triage_tickets :: "jira_client \<Rightarrow> (issue list \<times> string set) io option" where
  "get_all_triage_tickets jclient = triage_tickets_loop jclient 0 [] [] []"

text \<open>Lines 71-73.\<close>

fun add_watchers_loop :: "jira_client \<Rightarrow> issue \<Rightarrow> string list \<Rightarrow> unit io" where
  "add_watchers_loop jclient issue [] = io_return ()"
| "add_watchers_loop jclient issue (watcher # rest) =
     io_bind (io_call (AddWatcher (key issue) watcher) (add_watcher jclient (key issue) watcher))
       (\<lambda>_. add_watchers_loop jclient issue rest)"

definition add_watchers :: "jira_client \<Rightarrow> issue \<Rightarrow> unit io" where
  "add_watchers jclient issue = add_watchers_loop jclient issue DEFAULT_WATCHERS"

text \<open>Lines 75-101. \<^verbatim>\<open>major, minor, *_ = ...\<close> needs at least two pieces, and is a
  \<^verbatim>\<open>ValueError\<close> otherwise. The keyword arguments of \<^verbatim>\<open>create_issue\<close> are evaluated in
  their order: the three metadata reads of the labels, then the description.\<close>

definition create_jira_ticket ::
  "world \<Rightarrow> jira_client \<Rightarrow> string set \<Rightarrow> string \<Rightarrow> py_dict \<Rightarrow> issue option io" where
  "create_jira_ticket w jclient existing_tickets failure_id cluster_md =
     (if format_summary failure_id \<in> existing_tickets then
        io_bind (io_emit (Log DEBUG ''issue found: %s'' [format_summary failure_id]))
          (\<lambda>_. io_return None)
      else
        io_bind (getitem cluster_md ''openshift_version'') (\<lambda>openshift_version.
        case py_split CHR ''.'' openshift_version of
          major # minor # _ \<Rightarrow>
            io_bind (getitem cluster_md ''user_name'') (\<lambda>username.
            io_bind (getitem cluster_md ''email_domain'') (\<lambda>domain.
            io_bind (getitem cluster_md ''id'') (\<lambda>cluster_id.
            io_bind (io_call
                       (BuildDescription (LOGS_COLLECTOR @ ''/files/'' @ failure_id) cluster_md)
                       (build_description w (LOGS_COLLECTOR @ ''/files/'' @ failure_id) cluster_md))
              (\<lambda>descr.
            io_bind (io_call
                       (CreateIssue
                          \<lparr>project = ''MGMT'',
                           summary = format_summary failure_id,
                           versions = [''OpenShift '' @ major @ ''.'' @ minor],
                           components = [''Assisted-installer Triage''],
                           priority = ''Blocker'',
                           issuetype = ''Bug'',
                           labels = format_labels cluster_id username domain,
                           description = descr\<rparr>)
                       (create_issue jclient
                          \<lparr>project = ''MGMT'',
                           summary = format_summary failure_id,
                           versions = [''OpenShift '' @ major @ ''.'' @ minor],
                           components = [''Assisted-installer Triage''],
                           priority = ''Blocker'',
                           issuetype = ''Bug'',
                           labels = format_labels cluster_id username domain,
                           description = descr\<rparr>))
              (\<lambda>new_issue.
            io_bind (io_emit (Log INFO ''issue created: %s'' [key new_issue])) (\<lambda>_.
            io_bind (add_watchers jclient new_issue) (\<lambda>_.
            io_return (Some new_issue))))))))
        | _ \<Rightarrow> io_raise ValueError))"

text \<open>
  Lines 105-113 of \<^verbatim>\<open>main\<close>. \<open>username\<close> and \<open>password\<close> are locals of \<^verbatim>\<open>main\<close>: after the
  \<^verbatim>\<open>except\<close> branch neither is bound (the unpacking of line 109 raises before it assigns),
  and line 113 reads both.
\<close>

definition main_credentials :: "world \<Rightarrow> args \<Rightarrow> (string option \<times> string option) io" where
  "main_credentials w arg =
     (case user_password arg of
        None \<Rightarrow>
          io_bind (get_credentials_from_netrc w JIRA_HOSTNAME (netrc arg))
            (\<lambda>(username, password). io_return (Some username, Some password))
      | Some up \<Rightarrow>
          io_try
            (case py_split_max CHR '':'' 1 up of
               [username, password] \<Rightarrow> io_return (Some username, Some password)
             | _ \<Rightarrow> io_raise ValueError)
            (io_bind (io_emit (Log ERROR ''Failed to parse user:password'' []))
               (\<lambda>_. io_return (None, None))))"

definition main_login :: "world \<Rightarrow> args \<Rightarrow> (string \<times> jira_client) io" where
  "main_login w arg =
     io_bind (main_credentials w arg) (\<lambda>(username, password).
     io_bind (read_local username) (\<lambda>u.
     io_bind (read_local password) (\<lambda>p.
     io_bind (get_jira_client w u p) (\<lambda>jclient.
     io_return (u, jclient)))))"

text \<open>Lines 115-122: only \<^verbatim>\<open>requests.get\<close> is inside the \<^verbatim>\<open>try\<close>.\<close>

definition files_url :: string where
  "files_url = LOGS_COLLECTOR @ ''/files/''"

definition main_failed_clusters :: "world \<Rightarrow> py_dict list io" where
  "main_failed_clusters w =
     io_bind
       (io_try (io_call (HttpGet files_url) (requests_get_files w files_url))
          (io_bind (io_emit (Log EXCEPTION ''Error getting list of failed clusters'' []))
             (\<lambda>_. io_exit 1)))
       (\<lambda>res. io_bind (raise_for_status res) (\<lambda>_. io_return (json res)))"

text \<open>Lines 129-141: the body of the loop over the failures. \<^verbatim>\<open>continue\<close> is the return of
  the body. \<^verbatim>\<open>and\<close> is lazy: \<^verbatim>\<open>ats.days_ago\<close> is called only when \<^verbatim>\<open>arg.all\<close> is false.
  \<^verbatim>\<open>failure['name']\<close> is read again at lines 133, 138 and 140, from the same dict.\<close>

definition metadata_url :: "string \<Rightarrow> string" where
  "metadata_url name = LOGS_COLLECTOR @ ''/files/'' @ name @ ''/metadata.json''"

definition main_loop_body ::
  "world \<Rightarrow> jira_client \<Rightarrow> args \<Rightarrow> string set \<Rightarrow> py_dict \<Rightarrow> unit io" where
  "main_loop_body w jclient arg summaries failure =
     io_bind (getitem failure ''name'') (\<lambda>name.
     io_bind (index0 (py_split CHR ''_'' name)) (\<lambda>date.
     io_bind (if \<not> all arg
              then io_bind (io_of (days_ago w date))
                     (\<lambda>d. io_return (d > DEFAULT_DAYS_TO_HANDLE))
              else io_return False) (\<lambda>skip.
     if skip then io_return ()
     else
       io_bind (io_call (HttpGet (metadata_url name))
                  (requests_get_metadata w (metadata_url name))) (\<lambda>res.
       io_bind (raise_for_status res) (\<lambda>_.
       io_bind (getitem (json res) ''cluster'') (\<lambda>cluster.
       io_bind (getitem cluster ''status'') (\<lambda>status.
       if status = ''error'' then
         io_bind (create_jira_ticket w jclient summaries name cluster) (\<lambda>new_issue.
         case new_issue of
           None \<Rightarrow> io_return ()
         | Some created \<Rightarrow>
             io_call (AddSignatures (LOGS_COLLECTOR @ ''/files/'' @ name) (key created))
               (add_signatures w (LOGS_COLLECTOR @ ''/files/'' @ name) (key created)))
       else io_return ())))))))"

text \<open>Line 128: the loop; an abort of one iteration ends it.\<close>

fun main_loop ::
  "world \<Rightarrow> jira_client \<Rightarrow> args \<Rightarrow> string set \<Rightarrow> py_dict list \<Rightarrow> unit io" where
  "main_loop w jclient arg summaries [] = io_return ()"
| "main_loop w jclient arg summaries (failure # rest) =
     io_bind (main_loop_body w jclient arg summaries failure)
       (\<lambda>_. main_loop w jclient arg summaries rest)"

text \<open>Lines 143-151. The script reads the global \<^verbatim>\<open>args\<close> here, which is the object passed
  as \<^verbatim>\<open>arg\<close> (line 181). An absent or empty path is falsy.\<close>

definition main_close :: "world \<Rightarrow> args \<Rightarrow> string \<Rightarrow> issue list \<Rightarrow> unit io" where
  "main_close w arg username issues =
     (case filters_json arg of
        None \<Rightarrow> io_return ()
      | Some path \<Rightarrow>
          if path = [] then io_return ()
          else io_call (RunUsingJson path username issues)
                 (run_using_json w path username issues))"

text \<open>Lines 104-151.\<close>

definition main :: "world \<Rightarrow> args \<Rightarrow> unit io option" where
  "main w arg =
     prog_bind (Some (main_login w arg)) (\<lambda>(username, jclient).
     prog_bind (Some (main_failed_clusters w)) (\<lambda>failed_clusters.
     prog_bind (get_all_triage_tickets jclient) (\<lambda>(issues, summaries).
     prog_bind (Some (if issues = [] then io_raise ConnectionError else io_return ())) (\<lambda>_.
     prog_bind (Some (main_loop w jclient arg summaries failed_clusters)) (\<lambda>_.
     Some (main_close w arg username issues))))))"

subsection \<open>Observations on a trace\<close>

text \<open>The \<^verbatim>\<open>create_issue\<close> calls of a trace, in order, each with its arguments.\<close>

fun created_issues :: "event list \<Rightarrow> issue_fields list" where
  "created_issues [] = []"
| "created_issues (CreateIssue f # t) = f # created_issues t"
| "created_issues (_ # t) = created_issues t"

text \<open>The calls that create or annotate a ticket: creation, watchers, signatures.\<close>

fun ticket_effect :: "event \<Rightarrow> bool" where
  "ticket_effect (CreateIssue _) = True"
| "ticket_effect (AddWatcher _ _) = True"
| "ticket_effect (AddSignatures _ _) = True"
| "ticket_effect _ = False"

text \<open>The search calls for the pages \<open>i, ..., k - 1\<close>.\<close>

definition page_requests :: "nat \<Rightarrow> nat \<Rightarrow> event list" where
  "page_requests i k = map (\<lambda>j. SearchIssues triage_query block_size (block_size * j)) [i..<k]"

text \<open>The search at start index \<open>idx\<close> ends the pagination: it raises or its page is empty.\<close>

definition page_stops :: "jira_client \<Rightarrow> nat \<Rightarrow> bool" where
  "page_stops jclient idx =
     (case search_issues jclient triage_query block_size idx of
        Inl e \<Rightarrow> True | Inr issues_bulk \<Rightarrow> issues_bulk = [])"

subsection \<open>A concrete tracker and collector\<close>

text \<open>One ticket is on file, for another failure; the collector lists one failure, the one
  of the example of the specification, installed 400 days ago.\<close>

definition ex_issue :: issue where
  "ex_issue = \<lparr>key = ''MGMT-100'',
               fields_summary = ''cloud.redhat.com failure: 2022-12-24_cluster-xyz'',
               fields_status = ''Closed''\<rparr>"

definition ex_pages :: "nat \<Rightarrow> issue list" where
  "ex_pages j = (if j = 0 then [ex_issue] else [])"

definition ex_jclient :: jira_client where
  "ex_jclient =
     \<lparr>search_issues = (\<lambda>query maxResults startAt. Inr (if startAt = 0 then [ex_issue] else [])),
      create_issue = (\<lambda>f. Inr \<lparr>key = ''MGMT-101'', fields_summary = summary f,
                                fields_status = ''New''\<rparr>),
      add_watcher = (\<lambda>k watcher. Inr ())\<rparr>"

definition ex_cluster :: py_dict where
  "ex_cluster =
     [(''status'', ''error''), (''openshift_version'', ''4.12.3''), (''id'', ''abc''),
      (''user_name'', ''alice''), (''email_domain'', ''redhat.com'')]"

definition ex_failure :: py_dict where
  "ex_failure = [(''name'', ''2023-01-01_cluster-abc'')]"

definition ex_world :: world where
  "ex_world =
     \<lparr>netrc_authenticators = (\<lambda>file host. Inr (Some (''bot'', [], ''secret''))),
      jira_JIRA = (\<lambda>server auth. Inr ex_jclient),
      requests_get_files = (\<lambda>url. Inr \<lparr>status_code = 200, json = [ex_failure]\<rparr>),
      requests_get_metadata =
        (\<lambda>url. Inr \<lparr>status_code = 200, json = [(''cluster'', ex_cluster)]\<rparr>),
      days_ago = (\<lambda>date. Inr 400),
      build_description = (\<lambda>url md. Inr ''h1. Cluster Info''),
      add_signatures = (\<lambda>url k. Inr ()),
      run_using_json = (\<lambda>path username issues. Inr ())\<rparr>"

definition ex_args :: args where
  "ex_args = \<lparr>netrc = ''~/.netrc'', user_password = Some ''bot:secret'', all = True,
              verbose = False, filters_json = Some ''./triage_resolving_filters.json''\<rparr>"

text \<open>Variants: a command line without \<^verbatim>\<open>--all\<close>, and one whose credential string has
  no colon; a failure installed three days ago; a cluster that is not in error; a cluster
  whose version has no dot; a collector that cannot be reached, for the listing or for
  the metadata; a listing that names the same failure twice; a tracker with no ticket.\<close>

definition ex_args_recent :: args where
  "ex_args_recent = ex_args\<lparr>all := False\<rparr>"

definition ex_args_nocolon :: args where
  "ex_args_nocolon = ex_args\<lparr>user_password := Some ''botsecret''\<rparr>"

definition ex_world_young :: world where
  "ex_world_young = ex_world\<lparr>days_ago := (\<lambda>date. Inr 3)\<rparr>"

definition ex_cluster_installed :: py_dict where
  "ex_cluster_installed =
     [(''status'', ''installed''), (''openshift_version'', ''4.12.3''), (''id'', ''abc''),
      (''user_name'', ''alice''), (''email_domain'', ''redhat.com'')]"

definition ex_world_installed :: world where
  "ex_world_installed =
     ex_world\<lparr>requests_get_metadata :=
       (\<lambda>url. Inr \<lparr>status_code = 200, json = [(''cluster'', ex_cluster_installed)]\<rparr>)\<rparr>"

definition ex_cluster_nodot :: py_dict where
  "ex_cluster_nodot =
     [(''status'', ''error''), (''openshift_version'', ''latest''), (''id'', ''abc''),
      (''user_name'', ''alice''), (''email_domain'', ''redhat.com'')]"

definition ex_world_nodot :: world where
  "ex_world_nodot =
     ex_world\<lparr>requests_get_metadata :=
       (\<lambda>url. Inr \<lparr>status_code = 200, json = [(''cluster'', ex_cluster_nodot)]\<rparr>)\<rparr>"

definition ex_world_files_down :: world where
  "ex_world_files_down =
     ex_world\<lparr>requests_get_files := (\<lambda>url. Inl (LibraryError ''ConnectTimeout''))\<rparr>"

definition ex_failure_other :: py_dict where
  "ex_failure_other = [(''name'', ''2023-01-02_cluster-def'')]"

definition ex_world_metadata_down :: world where
  "ex_world_metadata_down =
     ex_world\<lparr>requests_get_files :=
                (\<lambda>url. Inr \<lparr>status_code = 200, json = [ex_failure, ex_failure_other]\<rparr>),
              requests_get_metadata := (\<lambda>url. Inr \<lparr>status_code = 503, json = []\<rparr>)\<rparr>"

definition ex_world_dup :: world where
  "ex_world_dup =
     ex_world\<lparr>requests_get_files :=
       (\<lambda>url. Inr \<lparr>status_code = 200, json = [ex_failure, ex_failure]\<rparr>)\<rparr>"

definition ex_jclient_empty :: jira_client where
  "ex_jclient_empty = ex_jclient\<lparr>search_issues := (\<lambda>query maxResults startAt. Inr [])\<rparr>"

definition ex_world_empty :: world where
  "ex_world_empty = ex_world\<lparr>jira_JIRA := (\<lambda>server auth. Inr ex_jclient_empty)\<rparr>"

text \<open>More variants: a listing of two different failures; a collector that answers the
  listing with status 503; the cluster without a dot in its version, installed three days
  ago.\<close>

definition ex_world_two :: world where
  "ex_world_two =
     ex_world\<lparr>requests_get_files :=
       (\<lambda>url. Inr \<lparr>status_code = 200, json = [ex_failure, ex_failure_other]\<rparr>)\<rparr>"

definition ex_world_files_503 :: world where
  "ex_world_files_503 =
     ex_world\<lparr>requests_get_files := (\<lambda>url. Inr \<lparr>status_code = 503, json = []\<rparr>)\<rparr>"

definition ex_world_nodot_young :: world where
  "ex_world_nodot_young = ex_world_nodot\<lparr>days_ago := (\<lambda>date. Inr 3)\<rparr>"

section \<open>Properties\<close>

subsection \<open>Sequencing and the primitives\<close>

lemmas io_defs = io_return_def io_raise_def io_exit_def io_emit_def io_call_def io_bind_def
  io_of_def io_try_def

lemma fst_io_bind:
  "fst (io_bind m f) = fst m @ (case snd m of Inl a \<Rightarrow> [] | Inr x \<Rightarrow> fst (f x))"
  by (cases m) (auto simp: io_bind_def split: sum.splits prod.splits)

lemma snd_io_bind:
  "snd (io_bind m f) = (case snd m of Inl a \<Rightarrow> Inl a | Inr x \<Rightarrow> snd (f x))"
  by (cases m) (auto simp: io_bind_def split: sum.splits prod.splits)

lemma py_split_not_Nil: "py_split c s \<noteq> []"
  by (induction s) (auto split: list.splits)

lemma py_split_no_sep: "c \<notin> set s \<Longrightarrow> py_split c s = [s]"
  by (induction s) auto

lemma py_split_sep: "c \<in> set s \<Longrightarrow> \<exists>a b rest. py_split c s = a # b # rest"
proof (induction s)
  case Nil
  then show ?case by simp
next
  case (Cons x xs)
  show ?case
  proof (cases "x = c")
    case True
    then show ?thesis using py_split_not_Nil [of c xs] by (cases "py_split c xs") auto
  next
    case False
    then have "c \<in> set xs" using Cons.prems by simp
    then obtain a b rest where "py_split c xs = a # b # rest" using Cons.IH by blast
    then show ?thesis using False by simp
  qed
qed

lemma hd_py_split: "hd (py_split c s) = takeWhile (\<lambda>x. x \<noteq> c) s"
  by (induction s) (auto split: list.splits simp: py_split_not_Nil)

text \<open>The first piece of a split is the part before the first separator.\<close>

lemma index0_py_split: "index0 (py_split c s) = io_return (takeWhile (\<lambda>x. x \<noteq> c) s)"
  using hd_py_split [of c s] py_split_not_Nil [of c s]
  by (cases "py_split c s") (auto simp: index0_def)

lemma created_issues_append: "created_issues (s @ t) = created_issues s @ created_issues t"
  by (induction s rule: created_issues.induct) auto

subsection \<open>The pagination\<close>

lemma triage_tickets_loop_run:
  assumes "\<forall>j. i \<le> j \<and> j \<le> k \<longrightarrow>
             search_issues jclient triage_query block_size (block_size * j) = Inr (pages j)"
    and "\<forall>j. i \<le> j \<and> j < k \<longrightarrow> pages j \<noteq> []"
    and "pages k = []"
    and "i \<le> k"
  shows "triage_tickets_loop jclient (block_size * i) summaries issues tr =
           Some (tr @ page_requests i (Suc k),
                 Inr (issues @ concat (map pages [i..<k]),
                      set (summaries @ map fields_summary (concat (map pages [i..<k])))))"
  using assms
proof (induction "k - i" arbitrary: i summaries issues tr)
  case 0
  then have "i = k" by simp
  with 0 have "search_issues jclient triage_query block_size (block_size * k) = Inr []"
    by simp
  then show ?case using \<open>i = k\<close>
    by (subst triage_tickets_loop.simps) (simp add: page_requests_def)
next
  case (Suc n)
  then have lt: "i < k" by simp
  have here: "search_issues jclient triage_query block_size (block_size * i) = Inr (pages i)"
    using Suc.prems lt by simp
  have ne: "pages i \<noteq> []" using Suc.prems lt by simp
  have step: "triage_tickets_loop jclient (block_size * Suc i)
                (summaries @ map fields_summary (pages i)) (issues @ pages i)
                (tr @ [SearchIssues triage_query block_size (block_size * i)]) =
              Some ((tr @ [SearchIssues triage_query block_size (block_size * i)]) @ page_requests (Suc i) (Suc k),
                    Inr ((issues @ pages i) @ concat (map pages [Suc i..<k]),
                         set ((summaries @ map fields_summary (pages i)) @
                              map fields_summary (concat (map pages [Suc i..<k])))))"
    using Suc.hyps(2) Suc.prems lt by (intro Suc.hyps(1)) auto
  have up1: "[i..<k] = i # [Suc i..<k]" using lt by (simp add: upt_conv_Cons)
  have up2: "[i..<Suc k] = i # [Suc i..<Suc k]" using lt by (simp add: upt_conv_Cons)
  have req: "page_requests i (Suc k) =
               SearchIssues triage_query block_size (block_size * i) # page_requests (Suc i) (Suc k)"
    unfolding page_requests_def by (subst up2) simp
  have idx: "block_size * i + block_size = block_size * Suc i" by simp
  show ?case
    apply (subst triage_tickets_loop.simps)
    apply (simp only: here sum.case idx)
    using ne step req up1 by simp
qed

lemma triage_tickets_loop_stops:
  assumes "triage_tickets_loop jclient idx summaries issues tr = Some y"
  shows "\<exists>n. page_stops jclient (idx + block_size * n)"
proof (rule triage_tickets_loop.raw_induct
         [where P = "\<lambda>jc i s is t r. \<exists>n. page_stops jc (i + block_size * n)", OF _ assms])
  fix loop :: "jira_client \<Rightarrow> nat \<Rightarrow> string list \<Rightarrow> issue list \<Rightarrow> event list
                 \<Rightarrow> (issue list \<times> string set) io option"
  fix jc i s "is" t r
  assume IH: "\<And>jc i s is t r. loop jc i s is t = Some r \<Longrightarrow> \<exists>n. page_stops jc (i + block_size * n)"
  assume body: "(case search_issues jc triage_query block_size i of
        Inl e \<Rightarrow> Some (t @ [SearchIssues triage_query block_size i], Inl (Raised e))
      | Inr issues_bulk \<Rightarrow>
          if length issues_bulk = 0
          then Some (t @ [SearchIssues triage_query block_size i], Inr (is, set s))
          else loop jc (i + block_size)
                 (s @ map fields_summary issues_bulk)
                 (is @ issues_bulk)
                 (t @ [SearchIssues triage_query block_size i])) = Some r"
  show "\<exists>n. page_stops jc (i + block_size * n)"
  proof (cases "page_stops jc i")
    case True
    then have "page_stops jc (i + block_size * 0)" by simp
    then show ?thesis by blast
  next
    case False
    then obtain bulk where b: "search_issues jc triage_query block_size i = Inr bulk" "bulk \<noteq> []"
      by (auto simp: page_stops_def split: sum.splits)
    with body have "loop jc (i + block_size) (s @ map fields_summary bulk)
                      (is @ bulk) (t @ [SearchIssues triage_query block_size i]) = Some r"
      by simp
    from IH [OF this] obtain n where "page_stops jc (i + block_size + block_size * n)"
      by blast
    then have "page_stops jc (i + block_size * Suc n)" by (simp add: add.assoc)
    then show ?thesis by blast
  qed
qed

subsection \<open>The issues a run creates\<close>

lemma created_add_watchers_loop: "created_issues (fst (add_watchers_loop jclient i ws)) = []"
  by (induction ws)
     (auto simp: fst_io_bind created_issues_append io_call_def io_return_def split: sum.splits)

lemma created_create_jira_ticket:
  "created_issues (fst (create_jira_ticket w jclient S fid md)) = [] \<or>
   (format_summary fid \<notin> S \<and>
    (\<exists>f. created_issues (fst (create_jira_ticket w jclient S fid md)) = [f] \<and>
         summary f = format_summary fid))"
  by (auto simp: create_jira_ticket_def fst_io_bind snd_io_bind created_issues_append
        created_add_watchers_loop add_watchers_def getitem_def io_return_def io_raise_def
        io_emit_def io_call_def
      split: sum.splits list.splits option.splits)

lemma created_main_loop_body_name:
  assumes "map_of failure ''name'' = Some name"
  shows "created_issues (fst (main_loop_body w jclient arg S failure)) = [] \<or>
        (\<exists>cluster. created_issues (fst (main_loop_body w jclient arg S failure)) =
            created_issues (fst (create_jira_ticket w jclient S name cluster)))"
proof -
  let ?fetch = "io_call (HttpGet (metadata_url name)) (requests_get_metadata w (metadata_url name))"
  have shape: "fst (main_loop_body w jclient arg S failure) = [] \<or>
     (\<exists>res. snd ?fetch = Inr res \<and>
        fst (main_loop_body w jclient arg S failure) =
          fst ?fetch @
          (case snd (raise_for_status res) of Inl a \<Rightarrow> []
           | Inr _ \<Rightarrow>
              (case map_of (json res) ''cluster'' of None \<Rightarrow> []
               | Some cluster \<Rightarrow>
                  (case map_of cluster ''status'' of None \<Rightarrow> []
                   | Some status \<Rightarrow>
                      if status = ''error'' then
                        fst (io_bind (create_jira_ticket w jclient S name cluster)
                          (\<lambda>new_issue. case new_issue of None \<Rightarrow> io_return ()
                             | Some created \<Rightarrow>
                               io_call (AddSignatures (LOGS_COLLECTOR @ ''/files/'' @ name) (key created))
                                 (add_signatures w (LOGS_COLLECTOR @ ''/files/'' @ name) (key created))))
                      else [])))) \<or>
     (\<exists>e. snd ?fetch = Inl e \<and> fst (main_loop_body w jclient arg S failure) = fst ?fetch)"
    using assms
    by (cases "all arg"; cases "days_ago w (takeWhile (\<lambda>x. x \<noteq> CHR ''_'') name)";
        cases "requests_get_metadata w (metadata_url name)")
       (simp_all add: main_loop_body_def getitem_def index0_py_split raise_for_status_def
          fst_io_bind snd_io_bind io_return_def io_of_def io_call_def io_raise_def
          split: option.splits)
  have sig: "created_issues (fst (io_bind (create_jira_ticket w jclient S name cluster)
                          (\<lambda>new_issue. case new_issue of None \<Rightarrow> io_return ()
                             | Some created \<Rightarrow>
                               io_call (AddSignatures u (key created)) (add_signatures w u (key created))))) =
             created_issues (fst (create_jira_ticket w jclient S name cluster))" for cluster u
    by (simp add: fst_io_bind created_issues_append io_return_def io_call_def
          split: sum.splits option.splits)
  have fetch: "created_issues (fst ?fetch) = []" by (simp add: io_call_def)
  from shape show ?thesis
  proof (elim disjE exE conjE)
    assume "fst (main_loop_body w jclient arg S failure) = []"
    then show ?thesis by simp
  next
    fix e assume "fst (main_loop_body w jclient arg S failure) = fst ?fetch"
    then show ?thesis using fetch by simp
  next
    fix res
    assume eq: "fst (main_loop_body w jclient arg S failure) =
          fst ?fetch @
          (case snd (raise_for_status res) of Inl a \<Rightarrow> []
           | Inr _ \<Rightarrow>
              (case map_of (json res) ''cluster'' of None \<Rightarrow> []
               | Some cluster \<Rightarrow>
                  (case map_of cluster ''status'' of None \<Rightarrow> []
                   | Some status \<Rightarrow>
                      if status = ''error'' then
                        fst (io_bind (create_jira_ticket w jclient S name cluster)
                          (\<lambda>new_issue. case new_issue of None \<Rightarrow> io_return ()
                             | Some created \<Rightarrow>
                               io_call (AddSignatures (LOGS_COLLECTOR @ ''/files/'' @ name) (key created))
                                 (add_signatures w (LOGS_COLLECTOR @ ''/files/'' @ name) (key created))))
                      else [])))"
    show ?thesis
      unfolding eq created_issues_append fetch
      by (auto simp: sig split: sum.splits option.splits)
  qed
qed

lemma created_main_loop_body:
  "created_issues (fst (main_loop_body w jclient arg S failure)) = [] \<or>
   (\<exists>name f. map_of failure ''name'' = Some name \<and> format_summary name \<notin> S \<and>
      created_issues (fst (main_loop_body w jclient arg S failure)) = [f] \<and>
      summary f = format_summary name)"
proof (cases "map_of failure ''name''")
  case None
  then show ?thesis by (simp add: main_loop_body_def getitem_def fst_io_bind io_raise_def)
next
  case (Some name)
  from created_main_loop_body_name [OF Some, of w jclient arg S]
  show ?thesis
  proof
    assume "created_issues (fst (main_loop_body w jclient arg S failure)) = []"
    then show ?thesis by simp
  next
    assume "\<exists>cluster. created_issues (fst (main_loop_body w jclient arg S failure)) =
            created_issues (fst (create_jira_ticket w jclient S name cluster))"
    then obtain cluster where c: "created_issues (fst (main_loop_body w jclient arg S failure)) =
            created_issues (fst (create_jira_ticket w jclient S name cluster))" by blast
    from created_create_jira_ticket [of w jclient S name cluster] c Some
    show ?thesis by auto
  qed
qed

lemma format_summary_inj: "format_summary a = format_summary b \<Longrightarrow> a = b"
  by (simp add: format_summary_def)

lemma fst_main_loop_Cons:
  "created_issues (fst (main_loop w jclient arg S (failure # fs))) =
     created_issues (fst (main_loop_body w jclient arg S failure)) \<or>
   created_issues (fst (main_loop w jclient arg S (failure # fs))) =
     created_issues (fst (main_loop_body w jclient arg S failure)) @
     created_issues (fst (main_loop w jclient arg S fs))"
  by (simp add: fst_io_bind created_issues_append split: sum.splits)

lemma created_main_loop:
  assumes "f \<in> set (created_issues (fst (main_loop w jclient arg S fs)))"
  shows "summary f \<notin> S \<and>
         (\<exists>failure name. failure \<in> set fs \<and> map_of failure ''name'' = Some name \<and>
            summary f = format_summary name)"
  using assms
proof (induction fs)
  case Nil
  then show ?case by (simp add: io_return_def)
next
  case (Cons failure fs)
  from Cons.prems fst_main_loop_Cons [of w jclient arg S failure fs]
  have "f \<in> set (created_issues (fst (main_loop_body w jclient arg S failure))) \<or>
        f \<in> set (created_issues (fst (main_loop w jclient arg S fs)))"
    by auto
  then show ?case
  proof
    assume b: "f \<in> set (created_issues (fst (main_loop_body w jclient arg S failure)))"
    from created_main_loop_body [of w jclient arg S failure] b
    obtain name g where "map_of failure ''name'' = Some name" "format_summary name \<notin> S"
      "created_issues (fst (main_loop_body w jclient arg S failure)) = [g]"
      "summary g = format_summary name"
      by auto
    with b show ?thesis by auto
  next
    assume "f \<in> set (created_issues (fst (main_loop w jclient arg S fs)))"
    from Cons.IH [OF this] show ?thesis by auto
  qed
qed

lemma distinct_main_loop:
  assumes "distinct (map (\<lambda>failure. map_of failure ''name'') fs)"
  shows "distinct (map summary (created_issues (fst (main_loop w jclient arg S fs))))"
  using assms
proof (induction fs)
  case Nil
  then show ?case by (simp add: io_return_def)
next
  case (Cons failure fs)
  let ?b = "created_issues (fst (main_loop_body w jclient arg S failure))"
  let ?r = "created_issues (fst (main_loop w jclient arg S fs))"
  have d: "distinct (map summary ?r)" using Cons by simp
  have nm: "map_of failure ''name'' \<notin> (\<lambda>failure. map_of failure ''name'') ` set fs"
    using Cons.prems by simp
  have b: "?b = [] \<or> (\<exists>name g. map_of failure ''name'' = Some name \<and> ?b = [g] \<and>
             summary g = format_summary name)"
    using created_main_loop_body [of w jclient arg S failure] by auto
  have disj: "summary g \<notin> summary ` set ?r" if "g \<in> set ?b" for g
  proof
    assume "summary g \<in> summary ` set ?r"
    then obtain f where f: "f \<in> set ?r" "summary f = summary g" by auto
    from created_main_loop [OF f(1)] obtain failure' name' where
      n': "failure' \<in> set fs" "map_of failure' ''name'' = Some name'"
          "summary f = format_summary name'" by blast
    from that b obtain name where n: "map_of failure ''name'' = Some name"
      "summary g = format_summary name" by auto
    from n n' f have "name = name'" using format_summary_inj [of name name'] by simp
    with n n' nm show False by force
  qed
  have db: "distinct (map summary ?b)" using b by auto
  have "distinct (map summary (?b @ ?r))"
    using d db disj by (auto simp: distinct_map)
  moreover have "distinct (map summary ?b)" by (rule db)
  ultimately show ?case
    using fst_main_loop_Cons [of w jclient arg S failure fs] by auto
qed


subsection \<open>The phases of \<open>main\<close>\<close>

lemma main_unfold:
  "main w arg =
    (case main_login w arg of
       (t0, Inl a) \<Rightarrow> Some (t0, Inl a)
     | (t0, Inr (username, jclient)) \<Rightarrow>
        (case main_failed_clusters w of
           (t1, Inl a) \<Rightarrow> Some (t0 @ t1, Inl a)
         | (t1, Inr failed_clusters) \<Rightarrow>
            (case get_all_triage_tickets jclient of
               None \<Rightarrow> None
             | Some (t2, Inl a) \<Rightarrow> Some (t0 @ t1 @ t2, Inl a)
             | Some (t2, Inr (issues, summaries)) \<Rightarrow>
                 if issues = [] then Some (t0 @ t1 @ t2, Inl (Raised ConnectionError))
                 else
                   (case main_loop w jclient arg summaries failed_clusters of
                      (t3, Inl a) \<Rightarrow> Some (t0 @ t1 @ t2 @ t3, Inl a)
                    | (t3, Inr _) \<Rightarrow>
                        (case main_close w arg username issues of
                           (t4, r) \<Rightarrow> Some (t0 @ t1 @ t2 @ t3 @ t4, r))))))"
  by (simp add: main_def prog_bind_def io_raise_def io_return_def
        split: prod.splits sum.splits option.splits)

lemma created_main_credentials: "created_issues (fst (main_credentials w arg)) = []"
proof (cases "user_password arg")
  case None
  then show ?thesis
    by (cases "netrc_authenticators w (netrc arg) JIRA_HOSTNAME")
       (auto simp: main_credentials_def get_credentials_from_netrc_def io_defs
          split: option.splits)
next
  case (Some up)
  then show ?thesis
    by (auto simp: main_credentials_def io_defs split: list.splits)
qed

lemma created_get_jira_client: "created_issues (fst (get_jira_client w u p)) = []"
  by (cases "jira_JIRA w JIRA_SERVER (u, p)") (simp_all add: get_jira_client_def io_defs)

lemma created_main_login: "created_issues (fst (main_login w arg)) = []"
  by (simp add: main_login_def read_local_def fst_io_bind snd_io_bind created_issues_append
        created_main_credentials created_get_jira_client io_return_def io_raise_def
      split: sum.splits option.splits prod.splits)

lemma main_failed_clusters_cases:
  "(\<exists>e. requests_get_files w files_url = Inl e \<and>
        main_failed_clusters w =
          ([HttpGet files_url, Log EXCEPTION ''Error getting list of failed clusters'' []],
           Inl (SystemExit 1))) \<or>
   (\<exists>res. requests_get_files w files_url = Inr res \<and>
        main_failed_clusters w =
          ([HttpGet files_url],
           if 400 \<le> status_code res \<and> status_code res < 600 then Inl (Raised HTTPError)
           else Inr (json res)))"
  by (cases "requests_get_files w files_url")
     (simp_all add: main_failed_clusters_def raise_for_status_def io_defs)

lemma created_main_close: "created_issues (fst (main_close w arg u issues)) = []"
  by (simp add: main_close_def io_return_def io_call_def split: option.splits)

lemma triage_tickets_loop_created:
  assumes "triage_tickets_loop jclient idx summaries issues tr = Some y"
  shows "created_issues (fst y) = created_issues tr"
proof (rule triage_tickets_loop.raw_induct
         [where P = "\<lambda>jc i s is t r. created_issues (fst r) = created_issues t", OF _ assms])
  fix loop :: "jira_client \<Rightarrow> nat \<Rightarrow> string list \<Rightarrow> issue list \<Rightarrow> event list
                 \<Rightarrow> (issue list \<times> string set) io option"
  fix jc i s "is" t r
  assume IH: "\<And>jc i s is t r. loop jc i s is t = Some r \<Longrightarrow> created_issues (fst r) = created_issues t"
  assume body: "(case search_issues jc triage_query block_size i of
        Inl e \<Rightarrow> Some (t @ [SearchIssues triage_query block_size i], Inl (Raised e))
      | Inr issues_bulk \<Rightarrow>
          if length issues_bulk = 0
          then Some (t @ [SearchIssues triage_query block_size i], Inr (is, set s))
          else loop jc (i + block_size)
                 (s @ map fields_summary issues_bulk)
                 (is @ issues_bulk)
                 (t @ [SearchIssues triage_query block_size i])) = Some r"
  show "created_issues (fst r) = created_issues t"
  proof (cases "search_issues jc triage_query block_size i")
    case (Inl e)
    with body show ?thesis by (auto simp: created_issues_append)
  next
    case (Inr bulk)
    show ?thesis
    proof (cases "bulk = []")
      case True
      with body Inr show ?thesis by (auto simp: created_issues_append)
    next
      case False
      with body Inr have "loop jc (i + block_size) (s @ map fields_summary bulk) (is @ bulk)
                 (t @ [SearchIssues triage_query block_size i]) = Some r" by simp
      from IH [OF this] show ?thesis by (simp add: created_issues_append)
    qed
  qed
qed

lemma created_get_all_triage_tickets:
  "get_all_triage_tickets jclient = Some (t, r) \<Longrightarrow> created_issues t = []"
  unfolding get_all_triage_tickets_def using triage_tickets_loop_created by fastforce

lemma main_created:
  assumes "main w arg = Some (t, r)"
  shows "created_issues t = [] \<or>
         (\<exists>t0 username jclient res t2 issues S.
            main_login w arg = (t0, Inr (username, jclient)) \<and>
            requests_get_files w files_url = Inr res \<and>
            get_all_triage_tickets jclient = Some (t2, Inr (issues, S)) \<and>
            created_issues t = created_issues (fst (main_loop w jclient arg S (json res))))"
proof -
  obtain t0 r0 where l: "main_login w arg = (t0, r0)" by (cases "main_login w arg")
  have c0: "created_issues t0 = []" using created_main_login [of w arg] l by simp
  show ?thesis
  proof (cases r0)
    case (Inl a)
    with assms l c0 show ?thesis by (auto simp: main_unfold)
  next
    case (Inr uj)
    obtain username jclient where uj: "uj = (username, jclient)" by (cases uj)
    obtain t1 r1 where f: "main_failed_clusters w = (t1, r1)" by (cases "main_failed_clusters w")
    have c1: "created_issues t1 = []"
      using main_failed_clusters_cases [of w] f by auto
    show ?thesis
    proof (cases r1)
      case (Inl a)
      with assms l Inr uj f c0 c1 show ?thesis by (auto simp: main_unfold created_issues_append)
    next
      case fc: (Inr failed_clusters)
      obtain res where res: "requests_get_files w files_url = Inr res" "failed_clusters = json res"
        using main_failed_clusters_cases [of w] f fc by (auto split: if_splits)
      show ?thesis
      proof (cases "get_all_triage_tickets jclient")
        case None
        with assms l Inr uj f fc show ?thesis by (simp add: main_unfold)
      next
        case (Some g)
        obtain t2 r2 where g: "g = (t2, r2)" by (cases g)
        have c2: "created_issues t2 = []"
          using created_get_all_triage_tickets Some g by blast
        show ?thesis
        proof (cases r2)
          case (Inl a)
          with assms l Inr uj f fc Some g c0 c1 c2 show ?thesis
            by (auto simp: main_unfold created_issues_append)
        next
          case iss_case: (Inr iss)
          obtain issues S where iss: "iss = (issues, S)" by (cases iss)
          obtain t3 r3 where m: "main_loop w jclient arg S failed_clusters = (t3, r3)"
            by (cases "main_loop w jclient arg S failed_clusters")
          obtain t4 r4 where c: "main_close w arg username issues = (t4, r4)"
            by (cases "main_close w arg username issues")
          have c4: "created_issues t4 = []"
            using created_main_close [of w arg username issues] c by simp
          have "created_issues t = [] \<or> created_issues t = created_issues t3"
            using assms l Inr uj f fc Some g iss_case iss m c c0 c1 c2 c4
            by (auto simp: main_unfold created_issues_append split: if_splits sum.splits)
          then show ?thesis
            using l Inr uj res Some g iss_case iss m by auto
        qed
      qed
    qed
  qed
qed

text \<open>Unfolding the concrete tracker and collector, and the script on them.\<close>

lemmas ex_defs = ex_world_def ex_jclient_def ex_args_def ex_cluster_def ex_failure_def
  ex_issue_def ex_args_recent_def ex_args_nocolon_def ex_world_young_def
  ex_cluster_installed_def ex_world_installed_def ex_cluster_nodot_def ex_world_nodot_def
  ex_world_files_down_def ex_failure_other_def ex_world_metadata_down_def ex_world_dup_def
  ex_jclient_empty_def ex_world_empty_def ex_world_two_def ex_world_files_503_def
  ex_world_nodot_young_def

lemmas run_defs = main_loop_body_def create_jira_ticket_def add_watchers_def
  format_summary_def format_labels_def getitem_def index0_def raise_for_status_def
  metadata_url_def files_url_def LOGS_COLLECTOR_def DEFAULT_WATCHERS_def
  DEFAULT_DAYS_TO_HANDLE_def JIRA_SERVER_def JIRA_HOSTNAME_def

lemma py_split_max_no_sep: "c \<notin> set s \<Longrightarrow> py_split_max c n s = [s]"
  by (induction c n s rule: py_split_max.induct) auto

lemma main_loop_append:
  assumes "main_loop w jclient arg S pre = (t, Inr ())"
  shows "main_loop w jclient arg S (pre @ fs) =
           (t @ fst (main_loop w jclient arg S fs), snd (main_loop w jclient arg S fs))"
  using assms
proof (induction pre arbitrary: t)
  case Nil
  then show ?case by (simp add: io_return_def)
next
  case (Cons failure pre)
  obtain tb rb where b: "main_loop_body w jclient arg S failure = (tb, rb)"
    by (cases "main_loop_body w jclient arg S failure")
  obtain tp rp where p: "main_loop w jclient arg S pre = (tp, rp)"
    by (cases "main_loop w jclient arg S pre")
  from Cons.prems b p have ok: "rb = Inr ()" "rp = Inr ()" "t = tb @ tp"
    by (auto simp: io_bind_def split: sum.splits)
  from Cons.IH [of tp] p ok
  have "main_loop w jclient arg S (pre @ fs) =
           (tp @ fst (main_loop w jclient arg S fs), snd (main_loop w jclient arg S fs))"
    by simp
  with b ok show ?case by (simp add: io_bind_def)
qed

lemma ex_get_all:
  "get_all_triage_tickets ex_jclient =
     Some ([SearchIssues triage_query 100 0, SearchIssues triage_query 100 100],
           Inr ([ex_issue], {fields_summary ex_issue}))"
  unfolding get_all_triage_tickets_def
  apply (subst triage_tickets_loop.simps)
  apply (simp add: ex_jclient_def block_size_def)
  apply (subst triage_tickets_loop.simps)
  apply (simp add: ex_jclient_def block_size_def)
  done

lemma ex_get_all_empty:
  "get_all_triage_tickets ex_jclient_empty =
     Some ([SearchIssues triage_query 100 0], Inr ([], {}))"
  unfolding get_all_triage_tickets_def
  apply (subst triage_tickets_loop.simps)
  apply (simp add: ex_jclient_empty_def ex_jclient_def block_size_def)
  done

lemma ex_login:
  "main_login ex_world ex_args =
     ([Log INFO ''log-in with username: %s'' [''bot''],
       JiraLogin ''https://issues.redhat.com/'' (''bot'', ''secret'')],
      Inr (''bot'', ex_jclient))"
  by (simp add: main_login_def main_credentials_def get_jira_client_def read_local_def io_defs
        ex_world_def ex_args_def JIRA_SERVER_def)

lemma ex_login_update:
  "jira_JIRA w = jira_JIRA ex_world \<Longrightarrow> main_login w ex_args = main_login ex_world ex_args"
  by (simp add: main_login_def main_credentials_def get_jira_client_def ex_args_def)

lemma ex_other_created:
  "map summary (created_issues
     (fst (main_loop_body ex_world_two ex_jclient ex_args {fields_summary ex_issue} ex_failure_other))) =
     [''cloud.redhat.com failure: 2023-01-02_cluster-def''] \<and>
   snd (main_loop_body ex_world_two ex_jclient ex_args {fields_summary ex_issue} ex_failure_other) =
     Inr ()"
  by (simp add: ex_defs run_defs io_defs)

lemma ex_first_created:
  "map summary (created_issues
     (fst (main_loop_body ex_world_two ex_jclient ex_args {fields_summary ex_issue} ex_failure))) =
     [''cloud.redhat.com failure: 2023-01-01_cluster-abc''] \<and>
   snd (main_loop_body ex_world_two ex_jclient ex_args {fields_summary ex_issue} ex_failure) =
     Inr ()"
  by (simp add: ex_defs run_defs io_defs)

subsection \<open>The pagination, as claimed\<close>

text \<open>
  C4. Let the tracker answer the search at start index \<open>100 * j\<close> with the page \<open>pages j\<close>.
  Then \<open>get_all_triage_tickets\<close> returns exactly when some page is empty. When page \<open>k\<close> is
  the first empty one, it has made the searches at 0, 100, ..., \<open>100 * k\<close> (block size 100,
  the start index advanced by 100 after every non-empty page) and no other call, and it
  returns the issues of the pages before \<open>k\<close> with the union of their summaries.
\<close>

theorem pagination:
  assumes "\<forall>j. search_issues jclient triage_query 100 (100 * j) = Inr (pages j)"
  shows "((\<exists>r. get_all_triage_tickets jclient = Some r) = (\<exists>k. pages k = [])) \<and>
         (\<forall>k. pages k = [] \<and> (\<forall>j<k. pages j \<noteq> []) \<longrightarrow>
            get_all_triage_tickets jclient =
              Some (map (\<lambda>j. SearchIssues triage_query 100 (100 * j)) [0..<Suc k],
                    Inr (concat (map pages [0..<k]),
                         (\<Union>j<k. fields_summary ` set (pages j)))))"
proof -
  have pg: "\<forall>j. search_issues jclient triage_query block_size (block_size * j) = Inr (pages j)"
    using assms by (simp add: block_size_def)
  have run: "get_all_triage_tickets jclient =
              Some (map (\<lambda>j. SearchIssues triage_query 100 (100 * j)) [0..<Suc k],
                    Inr (concat (map pages [0..<k]),
                         (\<Union>j<k. fields_summary ` set (pages j))))"
    if "pages k = []" "\<forall>j<k. pages j \<noteq> []" for k
  proof -
    have "triage_tickets_loop jclient (block_size * 0) [] [] [] =
           Some ([] @ page_requests 0 (Suc k),
                 Inr ([] @ concat (map pages [0..<k]),
                      set ([] @ map fields_summary (concat (map pages [0..<k])))))"
      using pg that by (intro triage_tickets_loop_run) auto
    moreover have "set (map fields_summary (concat (map pages [0..<k]))) =
                   (\<Union>j<k. fields_summary ` set (pages j))"
      by fastforce
    ultimately show ?thesis
      by (simp add: get_all_triage_tickets_def page_requests_def block_size_def del: upt_Suc)
  qed
  have "\<exists>k. pages k = []" if "get_all_triage_tickets jclient = Some r" for r
  proof -
    from that obtain n where "page_stops jclient (0 + block_size * n)"
      unfolding get_all_triage_tickets_def using triage_tickets_loop_stops by blast
    then have "pages n = []" using pg by (simp add: page_stops_def)
    then show ?thesis by blast
  qed
  moreover have "\<exists>r. get_all_triage_tickets jclient = Some r" if "pages k = []" for k
  proof -
    define m where "m = (LEAST k. pages k = [])"
    have "pages m = []" unfolding m_def using that by (rule LeastI)
    moreover have "\<forall>j<m. pages j \<noteq> []" unfolding m_def using not_less_Least by blast
    ultimately show ?thesis using run by blast
  qed
  ultimately show ?thesis using run by blast
qed


theorem pagination_witness:
  "(\<forall>j. search_issues ex_jclient triage_query 100 (100 * j) = Inr (ex_pages j)) \<and>
   ex_pages 1 = [] \<and> ex_pages 0 \<noteq> [] \<and>
   get_all_triage_tickets ex_jclient =
     Some ([SearchIssues triage_query 100 0, SearchIssues triage_query 100 100],
           Inr ([ex_issue], {''cloud.redhat.com failure: 2022-12-24_cluster-xyz''}))"
proof -
  have h: "\<forall>j. search_issues ex_jclient triage_query 100 (100 * j) = Inr (ex_pages j)"
    by (simp add: ex_jclient_def ex_pages_def)
  have k: "ex_pages 1 = [] \<and> (\<forall>j<1. ex_pages j \<noteq> [])"
    by (simp add: ex_pages_def)
  from pagination [OF h] k
  have "get_all_triage_tickets ex_jclient =
          Some (map (\<lambda>j. SearchIssues triage_query 100 (100 * j)) [0..<Suc 1],
                Inr (concat (map ex_pages [0..<1]),
                     (\<Union>j<1. fields_summary ` set (ex_pages j))))"
    by blast
  then show ?thesis using h k by (simp add: ex_pages_def ex_issue_def lessThan_Suc)
qed

subsection \<open>Ticket creation\<close>

text \<open>
  C2. When the summary \<^verbatim>\<open>cloud.redhat.com failure: {failure_id}\<close> is in the set of
  existing summaries, \<open>create_jira_ticket\<close> returns \<^verbatim>\<open>None\<close> and its only effect is a debug
  log line: no issue is created. In the loop of \<open>main\<close>, the iteration for that failure
  then makes no creation, no watcher and no signature call.
\<close>

theorem create_jira_ticket_existing:
  assumes "''cloud.redhat.com failure: '' @ failure_id \<in> existing_tickets"
  shows "create_jira_ticket w jclient existing_tickets failure_id cluster_md =
           ([Log DEBUG ''issue found: %s'' [''cloud.redhat.com failure: '' @ failure_id]], Inr None) \<and>
         (\<forall>arg failure. map_of failure ''name'' = Some failure_id \<longrightarrow>
            \<not> list_ex ticket_effect (fst (main_loop_body w jclient arg existing_tickets failure)))"
proof -
  have c: "create_jira_ticket w jclient existing_tickets failure_id cluster_md =
           ([Log DEBUG ''issue found: %s'' [''cloud.redhat.com failure: '' @ failure_id]], Inr None)"
    for cluster_md
    using assms by (simp add: create_jira_ticket_def format_summary_def io_defs)
  have "\<not> list_ex ticket_effect (fst (main_loop_body w jclient arg existing_tickets failure))"
    if "map_of failure ''name'' = Some failure_id" for arg failure
    using that
    by (auto simp: main_loop_body_def c fst_io_bind snd_io_bind getitem_def index0_py_split
          io_return_def io_raise_def io_call_def io_of_def raise_for_status_def
        split: sum.splits option.splits)
  with c show ?thesis by blast
qed

theorem create_jira_ticket_existing_witness:
  "''cloud.redhat.com failure: '' @ ''2023-01-01_cluster-abc''
     \<in> {''cloud.redhat.com failure: 2023-01-01_cluster-abc''} \<and>
   create_jira_ticket ex_world ex_jclient {''cloud.redhat.com failure: 2023-01-01_cluster-abc''}
     ''2023-01-01_cluster-abc'' ex_cluster =
     ([Log DEBUG ''issue found: %s'' [''cloud.redhat.com failure: 2023-01-01_cluster-abc'']], Inr None) \<and>
   map_of ex_failure ''name'' = Some ''2023-01-01_cluster-abc'' \<and>
   fst (main_loop_body ex_world ex_jclient ex_args
          {''cloud.redhat.com failure: 2023-01-01_cluster-abc''} ex_failure) =
     [HttpGet ''http://assisted-logs-collector.usersys.redhat.com/files/2023-01-01_cluster-abc/metadata.json'',
      Log DEBUG ''issue found: %s'' [''cloud.redhat.com failure: 2023-01-01_cluster-abc'']] \<and>
   \<not> list_ex ticket_effect
       (fst (main_loop_body ex_world ex_jclient ex_args
               {''cloud.redhat.com failure: 2023-01-01_cluster-abc''} ex_failure))"
proof -
  have h: "''cloud.redhat.com failure: '' @ ''2023-01-01_cluster-abc''
     \<in> {''cloud.redhat.com failure: 2023-01-01_cluster-abc''}" by simp
  have n: "map_of ex_failure ''name'' = Some ''2023-01-01_cluster-abc''"
    by (simp add: ex_failure_def)
  have t: "fst (main_loop_body ex_world ex_jclient ex_args
          {''cloud.redhat.com failure: 2023-01-01_cluster-abc''} ex_failure) =
     [HttpGet ''http://assisted-logs-collector.usersys.redhat.com/files/2023-01-01_cluster-abc/metadata.json'',
      Log DEBUG ''issue found: %s'' [''cloud.redhat.com failure: 2023-01-01_cluster-abc'']]"
    by (simp add: main_loop_body_def create_jira_ticket_def format_summary_def io_defs getitem_def
         ex_failure_def ex_world_def ex_args_def ex_cluster_def index0_def raise_for_status_def
         metadata_url_def LOGS_COLLECTOR_def)
  from create_jira_ticket_existing [OF h, of ex_world ex_jclient ex_cluster] n t h
  show ?thesis by simp
qed

text \<open>
  C3. The failure \<^verbatim>\<open>2023-01-01_cluster-abc\<close> with a metadata object that has
  \<^verbatim>\<open>openshift_version\<close> 4.12.3, \<^verbatim>\<open>id\<close> abc, \<^verbatim>\<open>user_name\<close> alice and \<^verbatim>\<open>email_domain\<close>
  redhat.com, when no existing ticket has its summary and the description builder returns:
  \<open>create_jira_ticket\<close> makes exactly one \<^verbatim>\<open>create_issue\<close> call; its labels contain
  \<^verbatim>\<open>AI_CLUSTER_abc\<close> and its version field is \<^verbatim>\<open>OpenShift 4.12\<close>.
\<close>

theorem example_ticket:
  assumes "''cloud.redhat.com failure: 2023-01-01_cluster-abc'' \<notin> existing_tickets"
    and "map_of cluster_md ''openshift_version'' = Some ''4.12.3''"
    and "map_of cluster_md ''id'' = Some ''abc''"
    and "map_of cluster_md ''user_name'' = Some ''alice''"
    and "map_of cluster_md ''email_domain'' = Some ''redhat.com''"
    and "build_description w
           ''http://assisted-logs-collector.usersys.redhat.com/files/2023-01-01_cluster-abc''
           cluster_md = Inr descr"
  shows "created_issues
           (fst (create_jira_ticket w jclient existing_tickets ''2023-01-01_cluster-abc'' cluster_md)) =
         [\<lparr>project = ''MGMT'',
           summary = ''cloud.redhat.com failure: 2023-01-01_cluster-abc'',
           versions = [''OpenShift 4.12''],
           components = [''Assisted-installer Triage''],
           priority = ''Blocker'',
           issuetype = ''Bug'',
           labels = [''no-qe'', ''AI_CLOUD_TRIAGE'', ''AI_CLUSTER_abc'', ''AI_USER_alice'',
                     ''AI_DOMAIN_redhat.com''],
           description = descr\<rparr>]"
proof -
  have sp: "py_split CHR ''.'' ''4.12.3'' = [''4'', ''12'', ''3'']" by simp
  show ?thesis
    using assms
    by (simp add: create_jira_ticket_def format_summary_def format_labels_def getitem_def sp
          LOGS_COLLECTOR_def fst_io_bind snd_io_bind created_issues_append
          created_add_watchers_loop add_watchers_def io_return_def io_call_def io_emit_def
        split: sum.splits)
qed

theorem example_ticket_witness:
  "''cloud.redhat.com failure: 2023-01-01_cluster-abc''
     \<notin> {''cloud.redhat.com failure: 2022-12-24_cluster-xyz''} \<and>
   map_of ex_cluster ''openshift_version'' = Some ''4.12.3'' \<and>
   map_of ex_cluster ''id'' = Some ''abc'' \<and>
   map_of ex_cluster ''user_name'' = Some ''alice'' \<and>
   map_of ex_cluster ''email_domain'' = Some ''redhat.com'' \<and>
   build_description ex_world
     ''http://assisted-logs-collector.usersys.redhat.com/files/2023-01-01_cluster-abc''
     ex_cluster = Inr ''h1. Cluster Info'' \<and>
   created_issues
     (fst (create_jira_ticket ex_world ex_jclient
             {''cloud.redhat.com failure: 2022-12-24_cluster-xyz''}
             ''2023-01-01_cluster-abc'' ex_cluster)) =
     [\<lparr>project = ''MGMT'',
       summary = ''cloud.redhat.com failure: 2023-01-01_cluster-abc'',
       versions = [''OpenShift 4.12''],
       components = [''Assisted-installer Triage''],
       priority = ''Blocker'',
       issuetype = ''Bug'',
       labels = [''no-qe'', ''AI_CLOUD_TRIAGE'', ''AI_CLUSTER_abc'', ''AI_USER_alice'',
                 ''AI_DOMAIN_redhat.com''],
       description = ''h1. Cluster Info''\<rparr>]"
proof -
  have 1: "''cloud.redhat.com failure: 2023-01-01_cluster-abc''
     \<notin> {''cloud.redhat.com failure: 2022-12-24_cluster-xyz''}" by simp
  have 2: "map_of ex_cluster ''openshift_version'' = Some ''4.12.3''"
    and 3: "map_of ex_cluster ''id'' = Some ''abc''"
    and 4: "map_of ex_cluster ''user_name'' = Some ''alice''"
    and 5: "map_of ex_cluster ''email_domain'' = Some ''redhat.com''"
    by (simp_all add: ex_cluster_def)
  have 6: "build_description ex_world
     ''http://assisted-logs-collector.usersys.redhat.com/files/2023-01-01_cluster-abc''
     ex_cluster = Inr ''h1. Cluster Info''"
    by (simp add: ex_world_def)
  from example_ticket [OF 1 2 3 4 5 6, of ex_jclient] 1 2 3 4 5 6
  show ?thesis by blast
qed

text \<open>
  C10. Splitting the version on the dot gives two pieces or more exactly when the version
  contains a dot. When it contains none and the summary is not yet ticketed,
  \<open>create_jira_ticket\<close> raises \<^verbatim>\<open>ValueError\<close> with an empty trace: after the membership
  test, before the description is built or any issue is created. The loop of \<open>main\<close>
  then ends at that failure with the same exception, whenever the failure is not skipped
  (\<^verbatim>\<open>--all\<close>, or at most 30 days old) and its metadata arrives with a status that is
  not 4xx or 5xx and says \<^verbatim>\<open>error\<close>; the failures after it are not visited.
\<close>

theorem version_without_dot:
  assumes "map_of cluster_md ''openshift_version'' = Some v"
  shows "((\<exists>major minor rest. py_split CHR ''.'' v = major # minor # rest) = (CHR ''.'' \<in> set v)) \<and>
         (CHR ''.'' \<notin> set v \<and> format_summary failure_id \<notin> existing_tickets \<longrightarrow>
            create_jira_ticket w jclient existing_tickets failure_id cluster_md =
              ([], Inl (Raised ValueError))) \<and>
         (CHR ''.'' \<notin> set v \<and> format_summary failure_id \<notin> existing_tickets \<longrightarrow>
            (\<forall>arg failure res rest.
               map_of failure ''name'' = Some failure_id \<and>
               (all arg \<or>
                (\<exists>d. days_ago w (takeWhile (\<lambda>c. c \<noteq> CHR ''_'') failure_id) = Inr d \<and> d \<le> 30)) \<and>
               requests_get_metadata w (metadata_url failure_id) = Inr res \<and>
               \<not> (400 \<le> status_code res \<and> status_code res < 600) \<and>
               map_of (json res) ''cluster'' = Some cluster_md \<and>
               map_of cluster_md ''status'' = Some ''error'' \<longrightarrow>
               main_loop w jclient arg existing_tickets (failure # rest) =
                 ([HttpGet (metadata_url failure_id)], Inl (Raised ValueError))))"
proof -
  have a: "(\<exists>major minor rest. py_split CHR ''.'' v = major # minor # rest) = (CHR ''.'' \<in> set v)"
  proof (cases "CHR ''.'' \<in> set v")
    case True
    then show ?thesis using py_split_sep [of "CHR ''.''" v] by simp
  next
    case False
    then show ?thesis by (simp add: py_split_no_sep)
  qed
  have b: "create_jira_ticket w jclient existing_tickets failure_id cluster_md =
              ([], Inl (Raised ValueError))"
    if "CHR ''.'' \<notin> set v" "format_summary failure_id \<notin> existing_tickets"
    using that assms
    by (simp add: create_jira_ticket_def getitem_def io_defs py_split_no_sep)
  have c: "main_loop w jclient arg existing_tickets (failure # rest) =
                 ([HttpGet (metadata_url failure_id)], Inl (Raised ValueError))"
    if "CHR ''.'' \<notin> set v" "format_summary failure_id \<notin> existing_tickets"
      "map_of failure ''name'' = Some failure_id"
      "all arg \<or>
         (\<exists>d. days_ago w (takeWhile (\<lambda>c. c \<noteq> CHR ''_'') failure_id) = Inr d \<and> d \<le> 30)"
      "requests_get_metadata w (metadata_url failure_id) = Inr res"
      "\<not> (400 \<le> status_code res \<and> status_code res < 600)"
      "map_of (json res) ''cluster'' = Some cluster_md"
      "map_of cluster_md ''status'' = Some ''error''"
    for arg failure res rest
    using that b
    by (auto simp: main_loop_body_def getitem_def index0_py_split raise_for_status_def
          DEFAULT_DAYS_TO_HANDLE_def io_defs)
  from a b c show ?thesis by blast
qed


theorem version_without_dot_witness:
  "map_of ex_cluster_nodot ''openshift_version'' = Some ''latest'' \<and>
   CHR ''.'' \<notin> set ''latest'' \<and>
   format_summary ''2023-01-01_cluster-abc'' \<notin> {''cloud.redhat.com failure: 2022-12-24_cluster-xyz''} \<and>
   create_jira_ticket ex_world_nodot ex_jclient
     {''cloud.redhat.com failure: 2022-12-24_cluster-xyz''} ''2023-01-01_cluster-abc''
     ex_cluster_nodot = ([], Inl (Raised ValueError)) \<and>
   map_of ex_failure ''name'' = Some ''2023-01-01_cluster-abc'' \<and> all ex_args \<and>
   requests_get_metadata ex_world_nodot (metadata_url ''2023-01-01_cluster-abc'') =
     Inr \<lparr>status_code = 200, json = [(''cluster'', ex_cluster_nodot)]\<rparr> \<and>
   map_of ex_cluster_nodot ''status'' = Some ''error'' \<and>
   main_loop ex_world_nodot ex_jclient ex_args
     {''cloud.redhat.com failure: 2022-12-24_cluster-xyz''} [ex_failure, ex_failure_other] =
     ([HttpGet (metadata_url ''2023-01-01_cluster-abc'')], Inl (Raised ValueError)) \<and>
   \<not> all ex_args_recent \<and>
   days_ago ex_world_nodot_young (takeWhile (\<lambda>c. c \<noteq> CHR ''_'') ''2023-01-01_cluster-abc'') =
     Inr 3 \<and>
   requests_get_metadata ex_world_nodot_young (metadata_url ''2023-01-01_cluster-abc'') =
     Inr \<lparr>status_code = 200, json = [(''cluster'', ex_cluster_nodot)]\<rparr> \<and>
   main_loop ex_world_nodot_young ex_jclient ex_args_recent
     {''cloud.redhat.com failure: 2022-12-24_cluster-xyz''} [ex_failure, ex_failure_other] =
     ([HttpGet (metadata_url ''2023-01-01_cluster-abc'')], Inl (Raised ValueError))"
proof -
  let ?S = "{''cloud.redhat.com failure: 2022-12-24_cluster-xyz''}"
  let ?res = "\<lparr>status_code = 200, json = [(''cluster'', ex_cluster_nodot)]\<rparr>"
  have 1: "map_of ex_cluster_nodot ''openshift_version'' = Some ''latest''"
    by (simp add: ex_cluster_nodot_def)
  have 2: "CHR ''.'' \<notin> set ''latest''" by simp
  have 3: "format_summary ''2023-01-01_cluster-abc'' \<notin> ?S"
    by (simp add: format_summary_def)
  have 4: "map_of ex_failure ''name'' = Some ''2023-01-01_cluster-abc''"
    by (simp add: ex_failure_def)
  have 5: "all ex_args" by (simp add: ex_args_def)
  have 6: "requests_get_metadata ex_world_nodot (metadata_url ''2023-01-01_cluster-abc'') =
     Inr ?res"
    by (simp add: ex_world_nodot_def ex_world_def)
  have 7: "map_of ex_cluster_nodot ''status'' = Some ''error''"
    by (simp add: ex_cluster_nodot_def)
  have 8: "\<not> all ex_args_recent" by (simp add: ex_args_recent_def ex_args_def)
  have 9: "days_ago ex_world_nodot_young
             (takeWhile (\<lambda>c. c \<noteq> CHR ''_'') ''2023-01-01_cluster-abc'') = Inr 3"
    by (simp add: ex_world_nodot_young_def ex_world_nodot_def ex_world_def)
  have 10: "requests_get_metadata ex_world_nodot_young (metadata_url ''2023-01-01_cluster-abc'') =
     Inr ?res"
    by (simp add: ex_world_nodot_young_def ex_world_nodot_def ex_world_def)
  have st: "\<not> (400 \<le> status_code ?res \<and> status_code ?res < 600)" by simp
  have cl: "map_of (json ?res) ''cluster'' = Some ex_cluster_nodot" by simp
  note t = version_without_dot [OF 1, of "''2023-01-01_cluster-abc''" ?S ex_world_nodot ex_jclient]
  from t 2 3 have a: "create_jira_ticket ex_world_nodot ex_jclient ?S ''2023-01-01_cluster-abc''
     ex_cluster_nodot = ([], Inl (Raised ValueError))" by blast
  have g1: "all ex_args \<or>
     (\<exists>d. days_ago ex_world_nodot (takeWhile (\<lambda>c. c \<noteq> CHR ''_'') ''2023-01-01_cluster-abc'') = Inr d
          \<and> d \<le> 30)"
    using 5 by simp
  from t 2 3 4 g1 6 st cl 7
  have b: "main_loop ex_world_nodot ex_jclient ex_args ?S (ex_failure # [ex_failure_other]) =
     ([HttpGet (metadata_url ''2023-01-01_cluster-abc'')], Inl (Raised ValueError))"
    by blast
  note u = version_without_dot [OF 1, of "''2023-01-01_cluster-abc''" ?S ex_world_nodot_young
             ex_jclient]
  have g2: "all ex_args_recent \<or>
     (\<exists>d. days_ago ex_world_nodot_young
             (takeWhile (\<lambda>c. c \<noteq> CHR ''_'') ''2023-01-01_cluster-abc'') = Inr d \<and> d \<le> 30)"
    using 9 by simp
  from u 2 3 4 g2 10 st cl 7
  have c: "main_loop ex_world_nodot_young ex_jclient ex_args_recent ?S
             (ex_failure # [ex_failure_other]) =
     ([HttpGet (metadata_url ''2023-01-01_cluster-abc'')], Inl (Raised ValueError))"
    by blast
  from 1 2 3 4 5 6 7 8 9 10 a b c show ?thesis by blast
qed

subsection \<open>The loop over the failures\<close>

text \<open>
  C5. Let \<open>d\<close> be the age in days that \<^verbatim>\<open>ats.days_ago\<close> gives for the part of the name
  before the first underscore. If \<open>d\<close> is above 30 and \<^verbatim>\<open>--all\<close> is not set, the iteration
  does nothing (no metadata fetch). If \<open>d\<close> is above 30 and \<^verbatim>\<open>--all\<close> is set, or if \<open>d\<close> is
  at most 30 (with or without \<^verbatim>\<open>--all\<close>), the failure is processed: the iteration is
  exactly the metadata fetch, the status check of the response, the reads of \<^verbatim>\<open>cluster\<close>
  and \<^verbatim>\<open>status\<close>, and for status \<^verbatim>\<open>error\<close> the call of \<open>create_jira_ticket\<close> followed by
  the signatures of a created ticket. It is the iteration that \<^verbatim>\<open>--all\<close> gives, and it
  starts with the fetch.
\<close>

theorem age_filter:
  assumes "map_of failure ''name'' = Some name"
    and "days_ago w (takeWhile (\<lambda>c. c \<noteq> CHR ''_'') name) = Inr d"
  shows "(30 < d \<and> \<not> all arg \<longrightarrow>
            main_loop_body w jclient arg summaries failure = ([], Inr ())) \<and>
         ((30 < d \<and> all arg) \<or> d \<le> 30 \<longrightarrow>
            main_loop_body w jclient arg summaries failure =
              io_bind (io_call (HttpGet (metadata_url name))
                         (requests_get_metadata w (metadata_url name))) (\<lambda>res.
              io_bind (raise_for_status res) (\<lambda>_.
              io_bind (getitem (json res) ''cluster'') (\<lambda>cluster.
              io_bind (getitem cluster ''status'') (\<lambda>status.
              if status = ''error'' then
                io_bind (create_jira_ticket w jclient summaries name cluster) (\<lambda>new_issue.
                case new_issue of
                  None \<Rightarrow> io_return ()
                | Some created \<Rightarrow>
                    io_call (AddSignatures (LOGS_COLLECTOR @ ''/files/'' @ name) (key created))
                      (add_signatures w (LOGS_COLLECTOR @ ''/files/'' @ name) (key created)))
              else io_return ())))) \<and>
            main_loop_body w jclient arg summaries failure =
              main_loop_body w jclient (arg\<lparr>all := True\<rparr>) summaries failure \<and>
            take 1 (fst (main_loop_body w jclient arg summaries failure)) =
              [HttpGet (metadata_url name)])"
proof -
  let ?process = "io_bind (io_call (HttpGet (metadata_url name))
                         (requests_get_metadata w (metadata_url name))) (\<lambda>res.
              io_bind (raise_for_status res) (\<lambda>_.
              io_bind (getitem (json res) ''cluster'') (\<lambda>cluster.
              io_bind (getitem cluster ''status'') (\<lambda>status.
              if status = ''error'' then
                io_bind (create_jira_ticket w jclient summaries name cluster) (\<lambda>new_issue.
                case new_issue of
                  None \<Rightarrow> io_return ()
                | Some created \<Rightarrow>
                    io_call (AddSignatures (LOGS_COLLECTOR @ ''/files/'' @ name) (key created))
                      (add_signatures w (LOGS_COLLECTOR @ ''/files/'' @ name) (key created)))
              else io_return ()))))"
  have bind_return: "io_bind (io_return x) f = f x" for x :: "'x" and f :: "'x \<Rightarrow> 'y io"
    by (cases "f x") (simp add: io_bind_def io_return_def)
  have skip: "main_loop_body w jclient arg summaries failure = ([], Inr ())"
    if "30 < d" "\<not> all arg"
    using assms that
    by (simp add: main_loop_body_def getitem_def index0_py_split DEFAULT_DAYS_TO_HANDLE_def
          io_defs)
  have gate: "(if \<not> all arg
              then io_bind (io_of (days_ago w (takeWhile (\<lambda>c. c \<noteq> CHR ''_'') name)))
                     (\<lambda>d. io_return (d > DEFAULT_DAYS_TO_HANDLE))
              else io_return False) = io_return False"
    if "(30 < d \<and> all arg) \<or> d \<le> 30" for arg :: args
    using assms that
    by (auto simp: DEFAULT_DAYS_TO_HANDLE_def io_bind_def io_of_def io_return_def)
  have proc: "main_loop_body w jclient arg summaries failure = ?process"
    if "(30 < d \<and> all arg) \<or> d \<le> 30" for arg :: args
    unfolding main_loop_body_def getitem_def index0_py_split
    by (simp only: assms(1) option.case bind_return gate [OF that] if_False)
  have first: "take 1 (fst ?process) = [HttpGet (metadata_url name)]"
    by (simp add: fst_io_bind io_call_def)
  have "main_loop_body w jclient (arg\<lparr>all := True\<rparr>) summaries failure = ?process"
    by (rule proc) auto
  with skip proc [of arg] first show ?thesis by simp
qed

theorem age_filter_witness:
  "map_of ex_failure ''name'' = Some ''2023-01-01_cluster-abc'' \<and>
   days_ago ex_world (takeWhile (\<lambda>c. c \<noteq> CHR ''_'') ''2023-01-01_cluster-abc'') = Inr 400 \<and>
   \<not> all ex_args_recent \<and>
   main_loop_body ex_world ex_jclient ex_args_recent {} ex_failure = ([], Inr ()) \<and>
   all ex_args \<and>
   main_loop_body ex_world ex_jclient ex_args {} ex_failure =
     main_loop_body ex_world ex_jclient (ex_args\<lparr>all := True\<rparr>) {} ex_failure \<and>
   take 1 (fst (main_loop_body ex_world ex_jclient ex_args {} ex_failure)) =
     [HttpGet (metadata_url ''2023-01-01_cluster-abc'')] \<and>
   map summary (created_issues (fst (main_loop_body ex_world ex_jclient ex_args {} ex_failure))) =
     [''cloud.redhat.com failure: 2023-01-01_cluster-abc''] \<and>
   days_ago ex_world_young (takeWhile (\<lambda>c. c \<noteq> CHR ''_'') ''2023-01-01_cluster-abc'') = Inr 3 \<and>
   main_loop_body ex_world_young ex_jclient ex_args_recent {} ex_failure =
     main_loop_body ex_world_young ex_jclient (ex_args_recent\<lparr>all := True\<rparr>) {} ex_failure \<and>
   take 1 (fst (main_loop_body ex_world_young ex_jclient ex_args_recent {} ex_failure)) =
     [HttpGet (metadata_url ''2023-01-01_cluster-abc'')] \<and>
   map summary
     (created_issues (fst (main_loop_body ex_world_young ex_jclient ex_args_recent {} ex_failure))) =
     [''cloud.redhat.com failure: 2023-01-01_cluster-abc'']"
proof -
  have 1: "map_of ex_failure ''name'' = Some ''2023-01-01_cluster-abc''"
    by (simp add: ex_failure_def)
  have 2: "days_ago ex_world (takeWhile (\<lambda>c. c \<noteq> CHR ''_'') ''2023-01-01_cluster-abc'') = Inr 400"
    by (simp add: ex_world_def)
  have 3: "\<not> all ex_args_recent" by (simp add: ex_args_recent_def ex_args_def)
  have 4: "all ex_args" by (simp add: ex_args_def)
  have 5: "map summary (created_issues (fst (main_loop_body ex_world ex_jclient ex_args {} ex_failure))) =
     [''cloud.redhat.com failure: 2023-01-01_cluster-abc'']"
    by (simp add: ex_defs run_defs io_defs)
  have 6: "days_ago ex_world_young (takeWhile (\<lambda>c. c \<noteq> CHR ''_'') ''2023-01-01_cluster-abc'') = Inr 3"
    by (simp add: ex_world_young_def ex_world_def)
  have 7: "map summary
     (created_issues (fst (main_loop_body ex_world_young ex_jclient ex_args_recent {} ex_failure))) =
     [''cloud.redhat.com failure: 2023-01-01_cluster-abc'']"
    by (simp add: ex_defs run_defs io_defs)
  have old_recent: "30 < (400::int) \<and> \<not> all ex_args_recent" using 3 by simp
  have old_all: "(30 < (400::int) \<and> all ex_args) \<or> (400::int) \<le> 30" using 4 by simp
  have young: "(30 < (3::int) \<and> all ex_args_recent) \<or> (3::int) \<le> 30" by simp
  from age_filter [OF 1 2, of ex_args_recent ex_jclient "{}"] old_recent
  have a: "main_loop_body ex_world ex_jclient ex_args_recent {} ex_failure = ([], Inr ())"
    by blast
  from age_filter [OF 1 2, of ex_args ex_jclient "{}"] old_all
  have b: "main_loop_body ex_world ex_jclient ex_args {} ex_failure =
     main_loop_body ex_world ex_jclient (ex_args\<lparr>all := True\<rparr>) {} ex_failure \<and>
     take 1 (fst (main_loop_body ex_world ex_jclient ex_args {} ex_failure)) =
     [HttpGet (metadata_url ''2023-01-01_cluster-abc'')]"
    by blast
  from age_filter [OF 1 6, of ex_args_recent ex_jclient "{}"] young
  have c: "main_loop_body ex_world_young ex_jclient ex_args_recent {} ex_failure =
     main_loop_body ex_world_young ex_jclient (ex_args_recent\<lparr>all := True\<rparr>) {} ex_failure \<and>
     take 1 (fst (main_loop_body ex_world_young ex_jclient ex_args_recent {} ex_failure)) =
     [HttpGet (metadata_url ''2023-01-01_cluster-abc'')]"
    by blast
  from 1 2 3 4 5 6 7 a b c show ?thesis by blast
qed

text \<open>
  C6. If the metadata fetched for a failure has a cluster status other than \<^verbatim>\<open>error\<close>,
  the iteration creates no issue (and adds no watcher or signature), whatever the age of
  the failure and the \<^verbatim>\<open>--all\<close> flag.
\<close>

theorem status_not_error:
  assumes "map_of failure ''name'' = Some name"
    and "requests_get_metadata w (metadata_url name) = Inr res"
    and "map_of (json res) ''cluster'' = Some cluster"
    and "map_of cluster ''status'' = Some status"
    and "status \<noteq> ''error''"
  shows "created_issues (fst (main_loop_body w jclient arg summaries failure)) = [] \<and>
         \<not> list_ex ticket_effect (fst (main_loop_body w jclient arg summaries failure))"
  using assms
  by (auto simp: main_loop_body_def getitem_def index0_py_split raise_for_status_def
        fst_io_bind snd_io_bind io_return_def io_of_def io_call_def io_raise_def
      split: sum.splits)


theorem status_not_error_witness:
  "map_of ex_failure ''name'' = Some ''2023-01-01_cluster-abc'' \<and>
   requests_get_metadata ex_world_installed (metadata_url ''2023-01-01_cluster-abc'') =
     Inr \<lparr>status_code = 200, json = [(''cluster'', ex_cluster_installed)]\<rparr> \<and>
   map_of [(''cluster'', ex_cluster_installed)] ''cluster'' = Some ex_cluster_installed \<and>
   map_of ex_cluster_installed ''status'' = Some ''installed'' \<and>
   ''installed'' \<noteq> ''error'' \<and>
   created_issues (fst (main_loop_body ex_world_installed ex_jclient ex_args {} ex_failure)) = [] \<and>
   \<not> list_ex ticket_effect (fst (main_loop_body ex_world_installed ex_jclient ex_args {} ex_failure))"
proof -
  have 1: "map_of ex_failure ''name'' = Some ''2023-01-01_cluster-abc''"
    by (simp add: ex_failure_def)
  have 2: "requests_get_metadata ex_world_installed (metadata_url ''2023-01-01_cluster-abc'') =
     Inr \<lparr>status_code = 200, json = [(''cluster'', ex_cluster_installed)]\<rparr>"
    by (simp add: ex_world_installed_def ex_world_def)
  have 3: "map_of (json \<lparr>status_code = 200, json = [(''cluster'', ex_cluster_installed)]\<rparr>)
             ''cluster'' = Some ex_cluster_installed" by simp
  have 4: "map_of ex_cluster_installed ''status'' = Some ''installed''"
    by (simp add: ex_cluster_installed_def)
  have 5: "''installed'' \<noteq> ''error''" by simp
  from status_not_error [OF 1 2 3 4 5, of ex_jclient ex_args "{}"] 1 2 3 4 5
  show ?thesis by simp
qed

subsection \<open>A whole run\<close>

text \<open>
  C1, as the script has it. Take a run of \<open>main\<close> that returns, and let the listing of the
  collector name no failure twice. Then no two \<^verbatim>\<open>create_issue\<close> calls of the run carry the
  same summary, and no created summary is in the set of summaries fetched from the tracker
  at the start of the run. That set is never updated during the run: the membership test
  against it is the only check, so a listing that names a failure twice gets two tickets
  with one summary.
\<close>

theorem unique_tickets:
  assumes "main w arg = Some (t, r)"
    and "\<forall>res. requests_get_files w files_url = Inr res \<longrightarrow>
           distinct (map (\<lambda>failure. map_of failure ''name'') (json res))"
  shows "distinct (map summary (created_issues t)) \<and>
         (\<forall>t0 username jclient t2 issues summaries.
            main_login w arg = (t0, Inr (username, jclient)) \<and>
            get_all_triage_tickets jclient = Some (t2, Inr (issues, summaries)) \<longrightarrow>
            (\<forall>f \<in> set (created_issues t). summary f \<notin> summaries))"
proof (cases "created_issues t = []")
  case True
  then show ?thesis by simp
next
  case False
  with main_created [OF assms(1)] obtain t0 username jclient res t2 issues S where
    l: "main_login w arg = (t0, Inr (username, jclient))" and
    f: "requests_get_files w files_url = Inr res" and
    g: "get_all_triage_tickets jclient = Some (t2, Inr (issues, S))" and
    c: "created_issues t = created_issues (fst (main_loop w jclient arg S (json res)))"
    by blast
  from assms(2) f have "distinct (map (\<lambda>failure. map_of failure ''name'') (json res))"
    by blast
  from distinct_main_loop [OF this, of w jclient arg S] c
  have d: "distinct (map summary (created_issues t))" by simp
  have "summary x \<notin> S" if "x \<in> set (created_issues t)" for x
    using created_main_loop [of x w jclient arg S "json res"] that c by simp
  with l g d show ?thesis by auto
qed

theorem unique_tickets_witness:
  "main ex_world_two ex_args =
     Some (fst (the (main ex_world_two ex_args)), snd (the (main ex_world_two ex_args))) \<and>
   requests_get_files ex_world_two files_url =
     Inr \<lparr>status_code = 200, json = [ex_failure, ex_failure_other]\<rparr> \<and>
   distinct (map (\<lambda>failure. map_of failure ''name'') [ex_failure, ex_failure_other]) \<and>
   map summary (created_issues (fst (the (main ex_world_two ex_args)))) =
     [''cloud.redhat.com failure: 2023-01-01_cluster-abc'',
      ''cloud.redhat.com failure: 2023-01-02_cluster-def''] \<and>
   distinct (map summary (created_issues (fst (the (main ex_world_two ex_args))))) \<and>
   main_login ex_world_two ex_args =
     ([Log INFO ''log-in with username: %s'' [''bot''],
       JiraLogin ''https://issues.redhat.com/'' (''bot'', ''secret'')],
      Inr (''bot'', ex_jclient)) \<and>
   get_all_triage_tickets ex_jclient =
     Some ([SearchIssues triage_query 100 0, SearchIssues triage_query 100 100],
           Inr ([ex_issue], {fields_summary ex_issue})) \<and>
   ''cloud.redhat.com failure: 2023-01-01_cluster-abc'' \<notin> {fields_summary ex_issue} \<and>
   ''cloud.redhat.com failure: 2023-01-02_cluster-def'' \<notin> {fields_summary ex_issue}"
proof -
  let ?S = "{fields_summary ex_issue}"
  have l: "main_login ex_world_two ex_args =
     ([Log INFO ''log-in with username: %s'' [''bot''],
       JiraLogin ''https://issues.redhat.com/'' (''bot'', ''secret'')],
      Inr (''bot'', ex_jclient))"
    using ex_login_update [of ex_world_two] ex_login by (simp add: ex_world_two_def)
  have f: "main_failed_clusters ex_world_two =
             ([HttpGet files_url], Inr [ex_failure, ex_failure_other])"
    by (simp add: main_failed_clusters_def raise_for_status_def io_defs ex_world_two_def)
  obtain ta where ta: "main_loop_body ex_world_two ex_jclient ex_args ?S ex_failure = (ta, Inr ())"
    and ca: "map summary (created_issues ta) = [''cloud.redhat.com failure: 2023-01-01_cluster-abc'']"
    using ex_first_created
    by (cases "main_loop_body ex_world_two ex_jclient ex_args ?S ex_failure") simp
  obtain tb where tb: "main_loop_body ex_world_two ex_jclient ex_args ?S ex_failure_other =
                         (tb, Inr ())"
    and cb: "map summary (created_issues tb) = [''cloud.redhat.com failure: 2023-01-02_cluster-def'']"
    using ex_other_created
    by (cases "main_loop_body ex_world_two ex_jclient ex_args ?S ex_failure_other") simp
  have loop: "main_loop ex_world_two ex_jclient ex_args ?S [ex_failure, ex_failure_other] =
                (ta @ tb, Inr ())"
    using ta tb by (simp add: io_bind_def io_return_def)
  obtain t4 r4 where close: "main_close ex_world_two ex_args ''bot'' [ex_issue] = (t4, r4)"
    by (cases "main_close ex_world_two ex_args ''bot'' [ex_issue]")
  have c4: "created_issues t4 = []"
    using created_main_close [of ex_world_two ex_args "''bot''" "[ex_issue]"] close by simp
  have m: "main ex_world_two ex_args =
             Some ([Log INFO ''log-in with username: %s'' [''bot''],
                    JiraLogin ''https://issues.redhat.com/'' (''bot'', ''secret'')] @
                   [HttpGet files_url] @
                   [SearchIssues triage_query 100 0, SearchIssues triage_query 100 100] @
                   (ta @ tb) @ t4, r4)"
    by (simp add: main_unfold l f ex_get_all loop close del: main_loop.simps)
  have s: "map summary (created_issues (fst (the (main ex_world_two ex_args)))) =
     [''cloud.redhat.com failure: 2023-01-01_cluster-abc'',
      ''cloud.redhat.com failure: 2023-01-02_cluster-def'']"
    using m ca cb c4 by (simp add: created_issues_append)
  have 1: "main ex_world_two ex_args =
     Some (fst (the (main ex_world_two ex_args)), snd (the (main ex_world_two ex_args)))"
    using m by simp
  have 2: "requests_get_files ex_world_two files_url =
     Inr \<lparr>status_code = 200, json = [ex_failure, ex_failure_other]\<rparr>"
    by (simp add: ex_world_two_def)
  have 3: "\<forall>res. requests_get_files ex_world_two files_url = Inr res \<longrightarrow>
           distinct (map (\<lambda>failure. map_of failure ''name'') (json res))"
    by (simp add: ex_world_two_def ex_failure_def ex_failure_other_def)
  have dn: "distinct (map (\<lambda>failure. map_of failure ''name'') [ex_failure, ex_failure_other])"
    by (simp add: ex_failure_def ex_failure_other_def)
  have 4: "''cloud.redhat.com failure: 2023-01-01_cluster-abc'' \<notin> {fields_summary ex_issue}"
    "''cloud.redhat.com failure: 2023-01-02_cluster-def'' \<notin> {fields_summary ex_issue}"
    by (simp_all add: ex_issue_def)
  from unique_tickets [OF 1 3] 1 2 dn s 4 l ex_get_all show ?thesis by simp
qed

theorem unique_tickets_counterexample:
  "requests_get_files ex_world_dup files_url =
     Inr \<lparr>status_code = 200, json = [ex_failure, ex_failure]\<rparr> \<and>
   map summary (created_issues (fst (the (main ex_world_dup ex_args)))) =
     [''cloud.redhat.com failure: 2023-01-01_cluster-abc'',
      ''cloud.redhat.com failure: 2023-01-01_cluster-abc''] \<and>
   \<not> distinct (map summary (created_issues (fst (the (main ex_world_dup ex_args)))))"
proof -
  have l: "main_login ex_world_dup ex_args =
     ([Log INFO ''log-in with username: %s'' [''bot''],
       JiraLogin ''https://issues.redhat.com/'' (''bot'', ''secret'')],
      Inr (''bot'', ex_jclient))"
    using ex_login_update [of ex_world_dup] ex_login by (simp add: ex_world_dup_def)
  have f: "main_failed_clusters ex_world_dup = ([HttpGet files_url], Inr [ex_failure, ex_failure])"
    by (simp add: main_failed_clusters_def raise_for_status_def io_defs ex_world_dup_def)
  have b: "map summary (created_issues
     (fst (main_loop_body ex_world_dup ex_jclient ex_args {fields_summary ex_issue} ex_failure))) =
     [''cloud.redhat.com failure: 2023-01-01_cluster-abc'']"
    and bq: "snd (main_loop_body ex_world_dup ex_jclient ex_args {fields_summary ex_issue} ex_failure) = Inr ()"
    by (simp_all add: ex_defs run_defs io_defs)
  obtain tb where tb: "main_loop_body ex_world_dup ex_jclient ex_args {fields_summary ex_issue} ex_failure =
     (tb, Inr ())" and cb: "map summary (created_issues tb) =
     [''cloud.redhat.com failure: 2023-01-01_cluster-abc'']"
    using b bq
    by (cases "main_loop_body ex_world_dup ex_jclient ex_args {fields_summary ex_issue} ex_failure")
       simp
  have loop: "main_loop ex_world_dup ex_jclient ex_args {fields_summary ex_issue}
                [ex_failure, ex_failure] = (tb @ tb, Inr ())"
    using tb by (simp add: io_bind_def io_return_def)
  obtain t4 r4 where close: "main_close ex_world_dup ex_args ''bot'' [ex_issue] = (t4, r4)"
    by (cases "main_close ex_world_dup ex_args ''bot'' [ex_issue]")
  have c4: "created_issues t4 = []"
    using created_main_close [of ex_world_dup ex_args "''bot''" "[ex_issue]"] close by simp
  have m: "main ex_world_dup ex_args =
             Some ([Log INFO ''log-in with username: %s'' [''bot''],
                    JiraLogin ''https://issues.redhat.com/'' (''bot'', ''secret'')] @
                   [HttpGet files_url] @
                   [SearchIssues triage_query 100 0, SearchIssues triage_query 100 100] @
                   (tb @ tb) @ t4, r4)"
    by (simp add: main_unfold l f ex_get_all loop close del: main_loop.simps)
  have s: "map summary (created_issues (fst (the (main ex_world_dup ex_args)))) =
     [''cloud.redhat.com failure: 2023-01-01_cluster-abc'',
      ''cloud.redhat.com failure: 2023-01-01_cluster-abc'']"
    using m cb c4 by (simp add: created_issues_append)
  have 2: "requests_get_files ex_world_dup files_url =
     Inr \<lparr>status_code = 200, json = [ex_failure, ex_failure]\<rparr>"
    by (simp add: ex_world_dup_def)
  from s 2 show ?thesis by simp
qed


text \<open>
  C7, as the script has it. After a successful log-in: if \<^verbatim>\<open>requests.get\<close> of the listing
  itself raises, the run logs the exception and exits with status 1, and does nothing
  more. If the listing answers with a 4xx or 5xx status, nothing catches it: the check of
  line 121 is outside the \<^verbatim>\<open>try\<close>, and the run ends with \<^verbatim>\<open>HTTPError\<close>, with no log and
  no exit status 1. If, in the loop, the metadata fetch of a failure that is not skipped
  raises, or answers with a 4xx or 5xx status, the run ends there with that exception:
  the failures after it in the listing leave no event.
\<close>

theorem http_errors:
  assumes "main_login w arg = (t0, Inr (username, jclient))"
  shows "(\<forall>e. requests_get_files w files_url = Inl e \<longrightarrow>
            main w arg =
              Some (t0 @ [HttpGet files_url,
                          Log EXCEPTION ''Error getting list of failed clusters'' []],
                    Inl (SystemExit 1))) \<and>
         (\<forall>res. requests_get_files w files_url = Inr res \<and>
                400 \<le> status_code res \<and> status_code res < 600 \<longrightarrow>
            main w arg = Some (t0 @ [HttpGet files_url], Inl (Raised HTTPError))) \<and>
         (\<forall>t1 pre failure rest t2 issues summaries t3 name e.
            main_failed_clusters w = (t1, Inr (pre @ failure # rest)) \<and>
            get_all_triage_tickets jclient = Some (t2, Inr (issues, summaries)) \<and>
            issues \<noteq> [] \<and>
            main_loop w jclient arg summaries pre = (t3, Inr ()) \<and>
            map_of failure ''name'' = Some name \<and>
            (all arg \<or> (\<exists>d. days_ago w (takeWhile (\<lambda>c. c \<noteq> CHR ''_'') name) = Inr d \<and> d \<le> 30)) \<and>
            (requests_get_metadata w (metadata_url name) = Inl e \<or>
             (\<exists>res. requests_get_metadata w (metadata_url name) = Inr res \<and>
                    400 \<le> status_code res \<and> status_code res < 600 \<and> e = HTTPError)) \<longrightarrow>
            main w arg =
              Some (t0 @ t1 @ t2 @ t3 @ [HttpGet (metadata_url name)], Inl (Raised e)))"
proof -
  have a: "main w arg =
              Some (t0 @ [HttpGet files_url,
                          Log EXCEPTION ''Error getting list of failed clusters'' []],
                    Inl (SystemExit 1))"
    if "requests_get_files w files_url = Inl e" for e
    using assms that main_failed_clusters_cases [of w] by (auto simp: main_unfold)
  have s: "main w arg = Some (t0 @ [HttpGet files_url], Inl (Raised HTTPError))"
    if "requests_get_files w files_url = Inr res" "400 \<le> status_code res" "status_code res < 600"
    for res
    using assms that main_failed_clusters_cases [of w] by (auto simp: main_unfold)
  have b: "main w arg =
              Some (t0 @ t1 @ t2 @ t3 @ [HttpGet (metadata_url name)], Inl (Raised e))"
    if f: "main_failed_clusters w = (t1, Inr (pre @ failure # rest))"
      and g: "get_all_triage_tickets jclient = Some (t2, Inr (issues, summaries))"
      and i: "issues \<noteq> []"
      and p: "main_loop w jclient arg summaries pre = (t3, Inr ())"
      and n: "map_of failure ''name'' = Some name"
      and young: "all arg \<or> (\<exists>d. days_ago w (takeWhile (\<lambda>c. c \<noteq> CHR ''_'') name) = Inr d \<and> d \<le> 30)"
      and err: "requests_get_metadata w (metadata_url name) = Inl e \<or>
             (\<exists>res. requests_get_metadata w (metadata_url name) = Inr res \<and>
                    400 \<le> status_code res \<and> status_code res < 600 \<and> e = HTTPError)"
    for t1 pre failure rest t2 issues summaries t3 name e
  proof -
    have body: "main_loop_body w jclient arg summaries failure =
                  ([HttpGet (metadata_url name)], Inl (Raised e))"
      using n young err
      by (auto simp: main_loop_body_def getitem_def index0_py_split raise_for_status_def
            DEFAULT_DAYS_TO_HANDLE_def io_defs)
    then have "main_loop w jclient arg summaries (failure # rest) =
                  ([HttpGet (metadata_url name)], Inl (Raised e))"
      by (simp add: io_bind_def)
    with main_loop_append [OF p, of "failure # rest"]
    have "main_loop w jclient arg summaries (pre @ failure # rest) =
            (t3 @ [HttpGet (metadata_url name)], Inl (Raised e))"
      by simp
    with assms f g i show ?thesis by (simp add: main_unfold)
  qed
  from a s b show ?thesis by blast
qed

theorem http_errors_witness:
  "main_login ex_world_files_down ex_args =
     ([Log INFO ''log-in with username: %s'' [''bot''],
       JiraLogin ''https://issues.redhat.com/'' (''bot'', ''secret'')],
      Inr (''bot'', ex_jclient)) \<and>
   requests_get_files ex_world_files_down files_url = Inl (LibraryError ''ConnectTimeout'') \<and>
   main ex_world_files_down ex_args =
     Some ([Log INFO ''log-in with username: %s'' [''bot''],
            JiraLogin ''https://issues.redhat.com/'' (''bot'', ''secret''),
            HttpGet files_url,
            Log EXCEPTION ''Error getting list of failed clusters'' []],
           Inl (SystemExit 1)) \<and>
   main_login ex_world_files_503 ex_args =
     ([Log INFO ''log-in with username: %s'' [''bot''],
       JiraLogin ''https://issues.redhat.com/'' (''bot'', ''secret'')],
      Inr (''bot'', ex_jclient)) \<and>
   requests_get_files ex_world_files_503 files_url = Inr \<lparr>status_code = 503, json = []\<rparr> \<and>
   main ex_world_files_503 ex_args =
     Some ([Log INFO ''log-in with username: %s'' [''bot''],
            JiraLogin ''https://issues.redhat.com/'' (''bot'', ''secret''),
            HttpGet files_url],
           Inl (Raised HTTPError)) \<and>
   main_login ex_world_metadata_down ex_args =
     ([Log INFO ''log-in with username: %s'' [''bot''],
       JiraLogin ''https://issues.redhat.com/'' (''bot'', ''secret'')],
      Inr (''bot'', ex_jclient)) \<and>
   main_failed_clusters ex_world_metadata_down =
     ([HttpGet files_url], Inr ([] @ ex_failure # [ex_failure_other])) \<and>
   get_all_triage_tickets ex_jclient =
     Some ([SearchIssues triage_query 100 0, SearchIssues triage_query 100 100],
           Inr ([ex_issue], {fields_summary ex_issue})) \<and>
   map_of ex_failure ''name'' = Some ''2023-01-01_cluster-abc'' \<and>
   all ex_args \<and>
   requests_get_metadata ex_world_metadata_down (metadata_url ''2023-01-01_cluster-abc'') =
     Inr \<lparr>status_code = 503, json = []\<rparr> \<and>
   main ex_world_metadata_down ex_args =
     Some ([Log INFO ''log-in with username: %s'' [''bot''],
            JiraLogin ''https://issues.redhat.com/'' (''bot'', ''secret''),
            HttpGet files_url,
            SearchIssues triage_query 100 0, SearchIssues triage_query 100 100,
            HttpGet (metadata_url ''2023-01-01_cluster-abc'')],
           Inl (Raised HTTPError))"
proof -
  have l1: "main_login ex_world_files_down ex_args =
     ([Log INFO ''log-in with username: %s'' [''bot''],
       JiraLogin ''https://issues.redhat.com/'' (''bot'', ''secret'')],
      Inr (''bot'', ex_jclient))"
    using ex_login_update [of ex_world_files_down] ex_login by (simp add: ex_world_files_down_def)
  have d1: "requests_get_files ex_world_files_down files_url = Inl (LibraryError ''ConnectTimeout'')"
    by (simp add: ex_world_files_down_def)
  from http_errors [OF l1] d1
  have a: "main ex_world_files_down ex_args =
     Some ([Log INFO ''log-in with username: %s'' [''bot''],
            JiraLogin ''https://issues.redhat.com/'' (''bot'', ''secret'')] @
           [HttpGet files_url,
            Log EXCEPTION ''Error getting list of failed clusters'' []],
           Inl (SystemExit 1))"
    by blast
  have l3: "main_login ex_world_files_503 ex_args =
     ([Log INFO ''log-in with username: %s'' [''bot''],
       JiraLogin ''https://issues.redhat.com/'' (''bot'', ''secret'')],
      Inr (''bot'', ex_jclient))"
    using ex_login_update [of ex_world_files_503] ex_login by (simp add: ex_world_files_503_def)
  have d3: "requests_get_files ex_world_files_503 files_url = Inr \<lparr>status_code = 503, json = []\<rparr>"
    by (simp add: ex_world_files_503_def)
  have d3s: "requests_get_files ex_world_files_503 files_url = Inr \<lparr>status_code = 503, json = []\<rparr> \<and>
      400 \<le> status_code \<lparr>status_code = 503, json = ([] :: py_dict list)\<rparr> \<and>
      status_code \<lparr>status_code = 503, json = ([] :: py_dict list)\<rparr> < 600"
    using d3 by simp
  from http_errors [OF l3] d3s
  have s: "main ex_world_files_503 ex_args =
     Some ([Log INFO ''log-in with username: %s'' [''bot''],
            JiraLogin ''https://issues.redhat.com/'' (''bot'', ''secret'')] @
           [HttpGet files_url],
           Inl (Raised HTTPError))"
    by blast
  have l2: "main_login ex_world_metadata_down ex_args =
     ([Log INFO ''log-in with username: %s'' [''bot''],
       JiraLogin ''https://issues.redhat.com/'' (''bot'', ''secret'')],
      Inr (''bot'', ex_jclient))"
    using ex_login_update [of ex_world_metadata_down] ex_login
    by (simp add: ex_world_metadata_down_def)
  have f2: "main_failed_clusters ex_world_metadata_down =
     ([HttpGet files_url], Inr ([] @ ex_failure # [ex_failure_other]))"
    by (simp add: main_failed_clusters_def raise_for_status_def io_defs
          ex_world_metadata_down_def)
  have p: "main_loop ex_world_metadata_down ex_jclient ex_args {fields_summary ex_issue} [] =
             ([], Inr ())"
    by (simp add: io_return_def)
  have n: "map_of ex_failure ''name'' = Some ''2023-01-01_cluster-abc''"
    by (simp add: ex_failure_def)
  have al: "all ex_args" by (simp add: ex_args_def)
  have m: "requests_get_metadata ex_world_metadata_down (metadata_url ''2023-01-01_cluster-abc'') =
     Inr \<lparr>status_code = 503, json = []\<rparr>"
    by (simp add: ex_world_metadata_down_def)
  have e: "\<exists>res. requests_get_metadata ex_world_metadata_down
                   (metadata_url ''2023-01-01_cluster-abc'') = Inr res \<and>
                 400 \<le> status_code res \<and> status_code res < 600 \<and> HTTPError = HTTPError"
    using m by simp
  from http_errors [OF l2] f2 ex_get_all p n al e
  have b: "main ex_world_metadata_down ex_args =
     Some ([Log INFO ''log-in with username: %s'' [''bot''],
            JiraLogin ''https://issues.redhat.com/'' (''bot'', ''secret'')] @
           [HttpGet files_url] @
           [SearchIssues triage_query 100 0, SearchIssues triage_query 100 100] @
           [] @ [HttpGet (metadata_url ''2023-01-01_cluster-abc'')],
           Inl (Raised HTTPError))"
    by blast
  from l1 d1 a l3 d3 s l2 f2 ex_get_all n al m b show ?thesis by simp
qed

theorem http_errors_counterexample:
  "requests_get_files ex_world_files_503 files_url = Inr \<lparr>status_code = 503, json = []\<rparr> \<and>
   main ex_world_files_503 ex_args =
     Some ([Log INFO ''log-in with username: %s'' [''bot''],
            JiraLogin ''https://issues.redhat.com/'' (''bot'', ''secret''),
            HttpGet files_url],
           Inl (Raised HTTPError)) \<and>
   main ex_world_files_503 ex_args \<noteq>
     Some ([Log INFO ''log-in with username: %s'' [''bot''],
            JiraLogin ''https://issues.redhat.com/'' (''bot'', ''secret''),
            HttpGet files_url,
            Log EXCEPTION ''Error getting list of failed clusters'' []],
           Inl (SystemExit 1))"
proof -
  have l: "main_login ex_world_files_503 ex_args =
     ([Log INFO ''log-in with username: %s'' [''bot''],
       JiraLogin ''https://issues.redhat.com/'' (''bot'', ''secret'')],
      Inr (''bot'', ex_jclient))"
    using ex_login_update [of ex_world_files_503] ex_login by (simp add: ex_world_files_503_def)
  have f: "main_failed_clusters ex_world_files_503 = ([HttpGet files_url], Inl (Raised HTTPError))"
    by (simp add: main_failed_clusters_def raise_for_status_def io_defs ex_world_files_503_def)
  have r: "requests_get_files ex_world_files_503 files_url = Inr \<lparr>status_code = 503, json = []\<rparr>"
    by (simp add: ex_world_files_503_def)
  have m: "main ex_world_files_503 ex_args =
     Some ([Log INFO ''log-in with username: %s'' [''bot''],
            JiraLogin ''https://issues.redhat.com/'' (''bot'', ''secret''),
            HttpGet files_url],
           Inl (Raised HTTPError))"
    by (simp add: main_unfold l f)
  from r m show ?thesis by simp
qed

text \<open>
  C8. If the pagination returns no issue at all, the run raises \<^verbatim>\<open>ConnectionError\<close> right
  after the pagination: its trace is that of the log-in, the listing and the searches, and
  no failure is visited.
\<close>

theorem no_issues_is_an_error:
  assumes "main_login w arg = (t0, Inr (username, jclient))"
    and "main_failed_clusters w = (t1, Inr failed_clusters)"
    and "get_all_triage_tickets jclient = Some (t2, Inr ([], summaries))"
  shows "main w arg = Some (t0 @ t1 @ t2, Inl (Raised ConnectionError))"
  using assms by (simp add: main_unfold)

theorem no_issues_is_an_error_witness:
  "main_login ex_world_empty ex_args =
     ([Log INFO ''log-in with username: %s'' [''bot''],
       JiraLogin ''https://issues.redhat.com/'' (''bot'', ''secret'')],
      Inr (''bot'', ex_jclient_empty)) \<and>
   main_failed_clusters ex_world_empty = ([HttpGet files_url], Inr [ex_failure]) \<and>
   get_all_triage_tickets ex_jclient_empty =
     Some ([SearchIssues triage_query 100 0], Inr ([], {})) \<and>
   main ex_world_empty ex_args =
     Some ([Log INFO ''log-in with username: %s'' [''bot''],
            JiraLogin ''https://issues.redhat.com/'' (''bot'', ''secret''),
            HttpGet files_url,
            SearchIssues triage_query 100 0],
           Inl (Raised ConnectionError))"
proof -
  have l: "main_login ex_world_empty ex_args =
     ([Log INFO ''log-in with username: %s'' [''bot''],
       JiraLogin ''https://issues.redhat.com/'' (''bot'', ''secret'')],
      Inr (''bot'', ex_jclient_empty))"
    by (simp add: main_login_def main_credentials_def get_jira_client_def read_local_def io_defs
        ex_world_empty_def ex_world_def ex_args_def JIRA_SERVER_def)
  have f: "main_failed_clusters ex_world_empty = ([HttpGet files_url], Inr [ex_failure])"
    by (simp add: main_failed_clusters_def raise_for_status_def io_defs ex_world_empty_def
          ex_world_def)
  from no_issues_is_an_error [OF l f ex_get_all_empty] l f ex_get_all_empty
  show ?thesis by simp
qed

text \<open>
  C9. What the script does when the credential string has no colon: the \<^verbatim>\<open>ValueError\<close>
  of the unpacking is caught and logged as an error, and the handler neither exits (as the
  handler of lines 117-119 does) nor binds \<open>username\<close> and \<open>password\<close>. The run does not
  go on to the tracker: it ends at line 113, where \<open>username\<close> is read, with an uncaught
  \<^verbatim>\<open>UnboundLocalError\<close>, and its whole trace is the one log line.
\<close>

theorem credential_parse_failure:
  assumes "user_password arg = Some up"
    and "CHR '':'' \<notin> set up"
  shows "main_credentials w arg =
           ([Log ERROR ''Failed to parse user:password'' []], Inr (None, None)) \<and>
         main w arg =
           Some ([Log ERROR ''Failed to parse user:password'' []], Inl (Raised UnboundLocalError))"
proof -
  have c: "main_credentials w arg =
           ([Log ERROR ''Failed to parse user:password'' []], Inr (None, None))"
    using assms by (simp add: main_credentials_def py_split_max_no_sep io_defs)
  then have "main_login w arg =
           ([Log ERROR ''Failed to parse user:password'' []], Inl (Raised UnboundLocalError))"
    by (simp add: main_login_def read_local_def io_defs)
  then have "main w arg =
           Some ([Log ERROR ''Failed to parse user:password'' []], Inl (Raised UnboundLocalError))"
    by (simp add: main_unfold)
  with c show ?thesis by blast
qed

theorem credential_parse_failure_witness:
  "user_password ex_args_nocolon = Some ''botsecret'' \<and>
   CHR '':'' \<notin> set ''botsecret'' \<and>
   main_credentials ex_world ex_args_nocolon =
     ([Log ERROR ''Failed to parse user:password'' []], Inr (None, None)) \<and>
   main ex_world ex_args_nocolon =
     Some ([Log ERROR ''Failed to parse user:password'' []], Inl (Raised UnboundLocalError))"
proof -
  have 1: "user_password ex_args_nocolon = Some ''botsecret''"
    by (simp add: ex_args_nocolon_def ex_args_def)
  have 2: "CHR '':'' \<notin> set ''botsecret''" by simp
  from credential_parse_failure [OF 1 2, of ex_world] 1 2 show ?thesis by blast
qed

end
